theory Spec2Isabelle
  imports Main
begin

section \<open>Python values, strings and commands\<close>

text \<open>
  The orchestration code is dynamically typed: an argument such as \<open>mtu\<close>, \<open>mac_address\<close>
  or \<open>interface\<close> may be \<open>None\<close>, a string or a number, and it is handed to the command
  executor as it is.  \<open>pyval\<close> keeps that distinction.
\<close>

datatype pyval = PyNone | PyStr string | PyInt int

text \<open>Decimal digits of a natural number, as Python's \<open>str\<close> prints them.\<close>

fun str_nat :: "nat \<Rightarrow> string" where
  "str_nat n =
     (if n < 10 then [''0123456789'' ! n]
      else str_nat (n div 10) @ [''0123456789'' ! (n mod 10)])"

declare str_nat.simps [simp del]

text \<open>\<open>str(v)\<close>, which is also what \<open>'%s' % v\<close> inserts.\<close>

fun py_str :: "pyval \<Rightarrow> string" where
  "py_str PyNone = ''None''"
| "py_str (PyStr s) = s"
| "py_str (PyInt i) = (if i < 0 then ''-'' @ str_nat (nat (- i)) else str_nat (nat i))"

text \<open>Truth value of an object in \<open>if v:\<close>.\<close>

fun truthy :: "pyval \<Rightarrow> bool" where
  "truthy PyNone = False"
| "truthy (PyStr s) = (s \<noteq> [])"
| "truthy (PyInt i) = (i \<noteq> 0)"

text \<open>
  \<open>str.split()\<close> without argument: maximal runs of non-whitespace characters.  The
  whitespace characters are the ASCII ones of Python 3 (\<open>\t \n \v \f \r\<close>, the four
  separators \<open>0x1c..0x1f\<close> and the blank); the host tools print ASCII.
\<close>

definition is_space :: "char \<Rightarrow> bool" where
  "is_space c =
     (c = CHR 0x09 \<or> c = CHR 0x0A \<or> c = CHR 0x0B \<or> c = CHR 0x0C \<or> c = CHR 0x0D \<or>
      c = CHR 0x1C \<or> c = CHR 0x1D \<or> c = CHR 0x1E \<or> c = CHR 0x1F \<or> c = CHR 0x20)"

fun split_ws_from :: "string \<Rightarrow> string \<Rightarrow> string list" where
  "split_ws_from tok [] = (if tok = [] then [] else [tok])"
| "split_ws_from tok (c # cs) =
     (if is_space c then (if tok = [] then [] else [tok]) @ split_ws_from [] cs
      else split_ws_from (tok @ [c]) cs)"

definition split_ws :: "string \<Rightarrow> string list" where
  "split_ws s = split_ws_from [] s"

text \<open>\<open>s.split(d)\<close> for a one-character separator: never empty, keeps empty pieces.\<close>

fun split_chr :: "char \<Rightarrow> string \<Rightarrow> string list" where
  "split_chr d [] = [[]]"
| "split_chr d (c # cs) =
     (if c = d then [] # split_chr d cs
      else (case split_chr d cs of [] \<Rightarrow> [[c]] | x # xs \<Rightarrow> (c # x) # xs))"

text \<open>
  One call of \<open>processutils.execute\<close>: the positional arguments as the code passes them,
  and the keyword arguments the code uses.  \<open>check_exit_code=False\<close> is \<open>Ignore\<close>; the
  library's default is \<open>[0]\<close>.
\<close>

datatype exit_check = Ignore | Allowed "int list"

record cmd =
  argv :: "pyval list"
  check_exit_code :: exit_check
  run_as_root :: bool
  process_input :: "string option"

definition default_check :: exit_check where
  "default_check = Allowed [0]"

fun exit_ok :: "exit_check \<Rightarrow> int \<Rightarrow> bool" where
  "exit_ok Ignore rc = True"
| "exit_ok (Allowed cs) rc = (rc \<in> set cs)"

section \<open>The data model of a request\<close>

datatype port_profile =
    VIFPortProfileOpenVSwitch (interface_id: string)
  | OtherPortProfile (class_name: string)

record network =
  network_bridge :: string

text \<open>
  \<open>port_profile = None\<close> is a VIF object without the attribute (\<open>hasattr\<close> is false).
  \<open>vif_plugin\<close> (the attribute \<open>plugin\<close>) is the backend name the dispatcher routes on.
\<close>

record vif =
  vif_id :: string
  address :: string
  vif_plugin :: string
  bridge_name :: string
  port_profile :: "port_profile option"
  vif_network :: network

record instance_info =
  uuid :: string

section \<open>Exceptions\<close>

text \<open>
  Every \<open>raise\<close> of the source, and every failure of an operation the source relies on,
  is a value.  \<open>BaseExit\<close> stands for the exceptions that are not subclasses of
  \<open>Exception\<close> (\<open>KeyboardInterrupt\<close>, \<open>SystemExit\<close>), which \<open>except Exception\<close> lets pass.
\<close>

datatype exn =
    ProcessExecutionError int
  | Exception string
  | NameError string
  | AttributeError string
  | IndexError
  | KeyError string
  | MissingPortProfile
  | WrongPortProfile string
  | LibraryNotInitialized
  | NoMatchingPlugin string
  | PlugException vif exn
  | UnplugException vif exn
  | BaseExit string

fun is_Exception :: "exn \<Rightarrow> bool" where
  "is_Exception (BaseExit n) = False"
| "is_Exception e = True"

section \<open>The host, the executor and the probe\<close>

text \<open>
  The host is outside the program: it answers a command with an exit code, standard
  output and standard error, and it answers whether a path exists.  Both may depend on
  everything that happened before, so the host has a state of its own (\<open>'h\<close>), and the
  two answers are parameters of the model.
\<close>

record 'h host_api =
  run_cmd :: "cmd \<Rightarrow> 'h \<Rightarrow> (int \<times> string \<times> string) \<times> 'h"
  path_exists :: "string \<Rightarrow> 'h \<Rightarrow> bool"

text \<open>
  The filtering collaborator behind the module global \<open>_IPTABLES_MANAGER\<close>: the rules
  added to its \<open>ipv4['filter']\<close> table, how often \<open>apply()\<close> ran, and what it returns.
  A rule is the argument tuple of \<open>add_rule\<close>.
\<close>

record iptables_mgr =
  filter_rules :: "string list list"
  applied :: nat
  get_gateway_rules :: "string \<Rightarrow> string list list"
  iptables_drop_action :: string

text \<open>
  The world a procedure runs in: the host's state, the commands executed so far with the
  host's answers (oldest first), the module global \<open>_IPTABLES_MANAGER\<close>, and whether
  the name \<open>_\<close> resolves: \<open>linux_net.py\<close> calls \<open>_(...)\<close> without importing it, so the
  call works only where \<open>gettext\<close> has been installed into the builtins; the message
  is then taken untranslated.
\<close>

record 'h world =
  host :: 'h
  trace :: "(cmd \<times> int \<times> string \<times> string) list"
  iptables_manager :: "iptables_mgr option"
  underscore_bound :: bool

definition issued :: "'h world \<Rightarrow> cmd list" where
  "issued w = map fst (trace w)"

type_synonym ('a, 'h) prog = "'h world \<Rightarrow> (exn + 'a) \<times> 'h world"

definition pret :: "'a \<Rightarrow> ('a, 'h) prog" where
  "pret x w = (Inr x, w)"

definition praise :: "exn \<Rightarrow> ('a, 'h) prog" where
  "praise e w = (Inl e, w)"

definition pbind :: "('a, 'h) prog \<Rightarrow> ('a \<Rightarrow> ('b, 'h) prog) \<Rightarrow> ('b, 'h) prog" where
  "pbind m f w = (case m w of (Inl e, w') \<Rightarrow> (Inl e, w') | (Inr x, w') \<Rightarrow> f x w')"

definition pwhen :: "bool \<Rightarrow> (unit, 'h) prog \<Rightarrow> (unit, 'h) prog" where
  "pwhen b m = (if b then m else pret ())"

text \<open>
  \<open>processutils.execute\<close>: run the command on the host, record it, and raise
  \<open>ProcessExecutionError\<close> when the exit code is not accepted; otherwise return
  \<open>(stdout, stderr)\<close>.  The process is taken to have the privileges \<open>run_as_root\<close>
  asks for, so that every command is handed to the host.
\<close>

definition execute :: "'h host_api \<Rightarrow> cmd \<Rightarrow> (string \<times> string, 'h) prog" where
  "execute api c w =
     (case run_cmd api c (host w) of
        ((rc, out, err), h') \<Rightarrow>
          (let w' = w\<lparr>host := h', trace := trace w @ [(c, rc, out, err)]\<rparr>
           in if exit_ok (check_exit_code c) rc then (Inr (out, err), w')
              else (Inl (ProcessExecutionError rc), w')))"

definition device_exists :: "'h host_api \<Rightarrow> string \<Rightarrow> 'h world \<Rightarrow> bool" where
  "device_exists api device w = path_exists api (''/sys/class/net/'' @ device) (host w)"

text \<open>
  For the statements below: the world after a list of commands has been executed one
  after another, whatever their exit codes; whether each of them is accepted when they
  are executed in this order; and the answer of the host to a command in a world.
\<close>

fun run_all :: "'h host_api \<Rightarrow> cmd list \<Rightarrow> 'h world \<Rightarrow> 'h world" where
  "run_all api [] w = w"
| "run_all api (c # cs) w = run_all api cs (snd (execute api c w))"

fun accepted_all :: "'h host_api \<Rightarrow> cmd list \<Rightarrow> 'h world \<Rightarrow> bool" where
  "accepted_all api [] w = True"
| "accepted_all api (c # cs) w =
     (exit_ok (check_exit_code c) (fst (fst (run_cmd api c (host w)))) \<and>
      accepted_all api cs (snd (execute api c w)))"

definition stdout_of :: "'h host_api \<Rightarrow> cmd \<Rightarrow> 'h world \<Rightarrow> string" where
  "stdout_of api c w = fst (snd (fst (run_cmd api c (host w))))"

definition stderr_of :: "'h host_api \<Rightarrow> cmd \<Rightarrow> 'h world \<Rightarrow> string" where
  "stderr_of api c w = snd (snd (fst (run_cmd api c (host w))))"

section \<open>\<open>vif_plug_linux_bridge/linux_net.py\<close>\<close>

text \<open>The command of \<open>_set_device_mtu(dev, mtu)\<close>; \<open>mtu\<close> is passed on as it comes.\<close>

definition mtu_cmd :: "string \<Rightarrow> pyval \<Rightarrow> cmd" where
  "mtu_cmd dev mtu =
     \<lparr>argv = [PyStr ''ip'', PyStr ''link'', PyStr ''set'', PyStr dev, PyStr ''mtu'', mtu],
      check_exit_code = Allowed [0, 2, 254], run_as_root = False, process_input = None\<rparr>"

definition set_device_mtu :: "'h host_api \<Rightarrow> string \<Rightarrow> pyval \<Rightarrow> (string \<times> string, 'h) prog" where
  "set_device_mtu api dev mtu = execute api (mtu_cmd dev mtu)"

definition ip_bridge_cmd :: "string \<Rightarrow> string list \<Rightarrow> string \<Rightarrow> string list" where
  "ip_bridge_cmd action params device =
     [''ip'', ''addr'', action] @ params @ [''dev'', device]"

text \<open>
  The commands of \<open>ensure_vlan\<close>, and the ones that create the interface, in the order
  of the source: \<open>ip link add\<close>, the MAC address if one is given, \<open>ip link set up\<close>.
\<close>

definition vlan_add_cmd :: "string \<Rightarrow> string \<Rightarrow> pyval \<Rightarrow> cmd" where
  "vlan_add_cmd bridge_interface interface vlan_num =
     \<lparr>argv = [PyStr ''ip'', PyStr ''link'', PyStr ''add'', PyStr ''link'',
              PyStr bridge_interface, PyStr ''name'', PyStr interface, PyStr ''type'',
              PyStr ''vlan'', PyStr ''id'', vlan_num],
      check_exit_code = Allowed [0, 2, 254], run_as_root = True, process_input = None\<rparr>"

definition vlan_mac_cmd :: "string \<Rightarrow> pyval \<Rightarrow> cmd" where
  "vlan_mac_cmd interface mac_address =
     \<lparr>argv = [PyStr ''ip'', PyStr ''link'', PyStr ''set'', PyStr interface,
              PyStr ''address'', mac_address],
      check_exit_code = Allowed [0, 2, 254], run_as_root = True, process_input = None\<rparr>"

definition vlan_up_cmd :: "string \<Rightarrow> cmd" where
  "vlan_up_cmd interface =
     \<lparr>argv = [PyStr ''ip'', PyStr ''link'', PyStr ''set'', PyStr interface, PyStr ''up''],
      check_exit_code = Allowed [0, 2, 254], run_as_root = True, process_input = None\<rparr>"

definition vlan_creation :: "string \<Rightarrow> string \<Rightarrow> pyval \<Rightarrow> pyval \<Rightarrow> cmd list" where
  "vlan_creation bridge_interface interface vlan_num mac_address =
     vlan_add_cmd bridge_interface interface vlan_num #
     (if truthy mac_address then [vlan_mac_cmd interface mac_address] else []) @
     [vlan_up_cmd interface]"

text \<open>
  \<open>ensure_vlan(vlan_num, bridge_interface, mac_address=None, mtu=None)\<close>.  The lock of
  the decorator serialises callers and does not change what one call does.
\<close>

definition ensure_vlan ::
  "'h host_api \<Rightarrow> pyval \<Rightarrow> string \<Rightarrow> pyval \<Rightarrow> pyval \<Rightarrow> (string, 'h) prog" where
  "ensure_vlan api vlan_num bridge_interface mac_address mtu =
     (let interface = ''vlan'' @ py_str vlan_num in
      pbind (\<lambda>w. pwhen (\<not> device_exists api interface w)
               (pbind (execute api (vlan_add_cmd bridge_interface interface vlan_num))
               (\<lambda>_. pbind (pwhen (truthy mac_address)
                             (pbind (execute api (vlan_mac_cmd interface mac_address))
                                (\<lambda>_. pret ())))
               (\<lambda>_. pbind (execute api (vlan_up_cmd interface))
               (\<lambda>_. pret ())))) w)
        (\<lambda>_. pbind (set_device_mtu api interface mtu)
        (\<lambda>_. pret interface)))"

definition route_del_cmd :: "string list \<Rightarrow> cmd" where
  "route_del_cmd flds =
     \<lparr>argv = map PyStr ([''ip'', ''route'', ''del''] @ flds),
      check_exit_code = default_check, run_as_root = True, process_input = None\<rparr>"

definition route_add_cmd :: "string list \<Rightarrow> cmd" where
  "route_add_cmd flds =
     \<lparr>argv = map PyStr ([''ip'', ''route'', ''add''] @ flds),
      check_exit_code = default_check, run_as_root = True, process_input = None\<rparr>"

definition addr_cmd :: "string \<Rightarrow> string list \<Rightarrow> string \<Rightarrow> cmd" where
  "addr_cmd action params device =
     \<lparr>argv = map PyStr (ip_bridge_cmd action params device),
      check_exit_code = Allowed [0, 2, 254], run_as_root = True, process_input = None\<rparr>"

text \<open>
  The first loop of \<open>ensure_bridge\<close>: every line of the route listing that has the token
  \<open>via\<close> is recorded and deleted.  The result is \<open>old_routes\<close>.  (\<open>flds\<close> is the
  \<open>fields\<close> of the source.)
\<close>

fun del_routes ::
  "'h host_api \<Rightarrow> string list \<Rightarrow> string list list \<Rightarrow> (string list list, 'h) prog" where
  "del_routes api [] old_routes = pret old_routes"
| "del_routes api (line # lines) old_routes =
     (let flds = split_ws line in
      if flds \<noteq> [] \<and> ''via'' \<in> set flds
      then pbind (execute api (route_del_cmd flds))
             (\<lambda>_. del_routes api lines (old_routes @ [flds]))
      else del_routes api lines old_routes)"

text \<open>
  \<open>params\<close> of an address line: \<open>fields[1:-2]\<close> when the token before the last is
  \<open>secondary\<close> or \<open>dynamic\<close>, \<open>fields[1:-1]\<close> otherwise.
\<close>

definition addr_params :: "string list \<Rightarrow> string list" where
  "addr_params flds =
     (if flds ! (length flds - 2) = ''secondary'' \<or>
         flds ! (length flds - 2) = ''dynamic''
      then drop 1 (take (length flds - 2) flds)
      else drop 1 (take (length flds - 1) flds))"

text \<open>
  The second loop: every line of the address listing whose first token is \<open>inet\<close> is
  deleted from the device named by its last token and added to the bridge.  A line that
  is the single token \<open>inet\<close> has no \<open>fields[-2]\<close>: \<open>IndexError\<close>.
\<close>

fun move_addrs :: "'h host_api \<Rightarrow> string \<Rightarrow> string list \<Rightarrow> (unit, 'h) prog" where
  "move_addrs api bridge [] = pret ()"
| "move_addrs api bridge (line # lines) =
     (let flds = split_ws line in
      if flds \<noteq> [] \<and> hd flds = ''inet''
      then if length flds < 2 then praise IndexError
           else pbind (execute api (addr_cmd ''del'' (addr_params flds) (last flds)))
               (\<lambda>_. pbind (execute api (addr_cmd ''add'' (addr_params flds) bridge))
               (\<lambda>_. move_addrs api bridge lines))
      else move_addrs api bridge lines)"

text \<open>The third loop: every recorded route is added again.\<close>

fun add_routes :: "'h host_api \<Rightarrow> string list list \<Rightarrow> (unit, 'h) prog" where
  "add_routes api [] = pret ()"
| "add_routes api (flds # old_routes) =
     pbind (execute api (route_add_cmd flds)) (\<lambda>_. add_routes api old_routes)"

definition already_member_msg :: "pyval \<Rightarrow> string \<Rightarrow> string" where
  "already_member_msg interface bridge =
     ''device '' @ py_str interface @
     '' is already a member of a bridge; can't enslave it to bridge '' @ bridge @
     ''.\<newline>''"

definition root_cmd :: "pyval list \<Rightarrow> cmd" where
  "root_cmd args =
     \<lparr>argv = args, check_exit_code = default_check, run_as_root = True,
      process_input = None\<rparr>"

text \<open>The commands of \<open>ensure_bridge\<close>, in the order of the source.\<close>

definition addbr_cmd :: "string \<Rightarrow> cmd" where
  "addbr_cmd bridge = root_cmd [PyStr ''brctl'', PyStr ''addbr'', PyStr bridge]"

definition setfd_cmd :: "string \<Rightarrow> cmd" where
  "setfd_cmd bridge = root_cmd [PyStr ''brctl'', PyStr ''setfd'', PyStr bridge, PyInt 0]"

definition stp_off_cmd :: "string \<Rightarrow> cmd" where
  "stp_off_cmd bridge = root_cmd [PyStr ''brctl'', PyStr ''stp'', PyStr bridge, PyStr ''off'']"

definition link_up_cmd :: "string \<Rightarrow> cmd" where
  "link_up_cmd bridge =
     root_cmd [PyStr ''ip'', PyStr ''link'', PyStr ''set'', PyStr bridge, PyStr ''up'']"

definition addif_cmd :: "string \<Rightarrow> pyval \<Rightarrow> cmd" where
  "addif_cmd bridge interface =
     \<lparr>argv = [PyStr ''brctl'', PyStr ''addif'', PyStr bridge, interface],
      check_exit_code = Ignore, run_as_root = True, process_input = None\<rparr>"

definition iface_up_cmd :: "pyval \<Rightarrow> cmd" where
  "iface_up_cmd interface =
     \<lparr>argv = [PyStr ''ip'', PyStr ''link'', PyStr ''set'', interface, PyStr ''up''],
      check_exit_code = Ignore, run_as_root = True, process_input = None\<rparr>"

definition route_show_cmd :: "pyval \<Rightarrow> cmd" where
  "route_show_cmd interface =
     \<lparr>argv = [PyStr ''ip'', PyStr ''route'', PyStr ''show'', PyStr ''dev'', interface],
      check_exit_code = default_check, run_as_root = False, process_input = None\<rparr>"

definition addr_show_cmd :: "pyval \<Rightarrow> cmd" where
  "addr_show_cmd interface =
     \<lparr>argv = [PyStr ''ip'', PyStr ''addr'', PyStr ''show'', PyStr ''dev'', interface,
              PyStr ''scope'', PyStr ''global''],
      check_exit_code = default_check, run_as_root = False, process_input = None\<rparr>"

text \<open>
  \<open>ensure_bridge(bridge, interface, net_attrs=None, gateway=True, filtering=True)\<close>.
  The body never reads \<open>net_attrs\<close>, so the model has no such argument.  The lock of the
  decorator serialises callers and does not change what one call does.  Two blocks of the
  body have a name of their own here: \<open>migrate\<close> is the part from \<open>old_routes = []\<close> to
  the last loop, and \<open>apply_filtering\<close> is the body of \<open>if filtering:\<close>.  With
  \<open>_IPTABLES_MANAGER\<close> unset, the first read of that body, \<open>_IPTABLES_MANAGER.ipv4\<close>,
  is an \<open>AttributeError\<close>.
\<close>

definition migrate :: "'h host_api \<Rightarrow> string \<Rightarrow> pyval \<Rightarrow> (unit, 'h) prog" where
  "migrate api bridge interface =
     pbind (execute api (route_show_cmd interface))
       (\<lambda>(out, err). pbind (del_routes api (split_chr CHR 0x0A out) [])
       (\<lambda>old_routes. pbind (execute api (addr_show_cmd interface))
       (\<lambda>(out, err). pbind (move_addrs api bridge (split_chr CHR 0x0A out))
       (\<lambda>_. add_routes api old_routes))))"

definition apply_filtering :: "string \<Rightarrow> bool \<Rightarrow> (unit, 'h) prog" where
  "apply_filtering bridge gateway w =
     (case iptables_manager w of
        None \<Rightarrow> (Inl (AttributeError ''ipv4''), w)
      | Some m \<Rightarrow>
          (Inr (),
           w\<lparr>iptables_manager := Some
               (m\<lparr>filter_rules := filter_rules m @
                      (if gateway then get_gateway_rules m bridge
                       else [[''FORWARD'',
                              ''--in-interface '' @ bridge @ '' -j '' @ iptables_drop_action m],
                             [''FORWARD'',
                              ''--out-interface '' @ bridge @ '' -j '' @
                                iptables_drop_action m]]),
                   applied := Suc (applied m)\<rparr>)\<rparr>))"

definition ensure_bridge ::
  "'h host_api \<Rightarrow> string \<Rightarrow> pyval \<Rightarrow> bool \<Rightarrow> bool \<Rightarrow> (unit, 'h) prog" where
  "ensure_bridge api bridge interface gateway filtering =
     pbind (\<lambda>w. pwhen (\<not> device_exists api bridge w)
              (pbind (execute api (addbr_cmd bridge))
              (\<lambda>_. pbind (execute api (setfd_cmd bridge))
              (\<lambda>_. pbind (execute api (stp_off_cmd bridge))
              (\<lambda>_. pbind (execute api (link_up_cmd bridge))
              (\<lambda>_. pret ()))))) w)
    (\<lambda>_. pbind (pwhen (truthy interface)
              (pbind (execute api (addif_cmd bridge interface))
              (\<lambda>(out, err).
                 pbind (\<lambda>w. pwhen (err \<noteq> [] \<and> err \<noteq> already_member_msg interface bridge)
                          (if underscore_bound w
                           then praise (Exception (''Failed to add interface: '' @ err))
                           else praise (NameError ''_'')) w)
              (\<lambda>_. pbind (execute api (iface_up_cmd interface))
              (\<lambda>_. migrate api bridge interface)))))
    (\<lambda>_. pwhen filtering (apply_filtering bridge gateway)))"

text \<open>
  What a listing says, in the words of the specification: the routes that go through a
  gateway are the lines with the token \<open>via\<close>; the IPv4 addresses are the lines that
  begin with the token \<open>inet\<close>.  Moving an address is deleting it from the device its
  line ends with and adding it to the bridge.
\<close>

definition listed :: "string \<Rightarrow> string list list" where
  "listed out = filter (\<lambda>flds. flds \<noteq> []) (map split_ws (split_chr CHR 0x0A out))"

definition via_routes :: "string \<Rightarrow> string list list" where
  "via_routes out = filter (\<lambda>flds. ''via'' \<in> set flds) (listed out)"

definition inet_addrs :: "string \<Rightarrow> string list list" where
  "inet_addrs out = filter (\<lambda>flds. hd flds = ''inet'') (listed out)"

definition addr_moves :: "string \<Rightarrow> string list list \<Rightarrow> cmd list" where
  "addr_moves bridge addrs =
     concat (map (\<lambda>flds. [addr_cmd ''del'' (addr_params flds) (last flds),
                          addr_cmd ''add'' (addr_params flds) bridge]) addrs)"

definition bridge_setup :: "'h host_api \<Rightarrow> string \<Rightarrow> 'h world \<Rightarrow> cmd list" where
  "bridge_setup api bridge w =
     (if device_exists api bridge w then []
      else [addbr_cmd bridge, setfd_cmd bridge, stp_off_cmd bridge, link_up_cmd bridge])"

text \<open>
  The migration as the specification describes it, as worlds: after the bridge has been
  set up where it was missing and the interface attached and brought up; after the routes
  through a gateway of the route listing have been deleted; after the IPv4 addresses of
  the address listing have been moved; and after the deleted routes have been added again.
  Each listing is the one the host prints at that moment.
\<close>

definition attached :: "'h host_api \<Rightarrow> string \<Rightarrow> pyval \<Rightarrow> 'h world \<Rightarrow> 'h world" where
  "attached api bridge interface w =
     run_all api (bridge_setup api bridge w @
                  [addif_cmd bridge interface, iface_up_cmd interface]) w"

definition old_routes_at :: "'h host_api \<Rightarrow> pyval \<Rightarrow> 'h world \<Rightarrow> string list list" where
  "old_routes_at api interface w = via_routes (stdout_of api (route_show_cmd interface) w)"

definition routes_deleted :: "'h host_api \<Rightarrow> pyval \<Rightarrow> 'h world \<Rightarrow> 'h world" where
  "routes_deleted api interface w =
     run_all api (route_show_cmd interface #
                  map route_del_cmd (old_routes_at api interface w)) w"

definition addrs_at :: "'h host_api \<Rightarrow> pyval \<Rightarrow> 'h world \<Rightarrow> string list list" where
  "addrs_at api interface w = inet_addrs (stdout_of api (addr_show_cmd interface) w)"

definition addrs_moved :: "'h host_api \<Rightarrow> string \<Rightarrow> pyval \<Rightarrow> 'h world \<Rightarrow> 'h world" where
  "addrs_moved api bridge interface w =
     run_all api (addr_show_cmd interface #
                  addr_moves bridge (addrs_at api interface w)) w"

definition migrated :: "'h host_api \<Rightarrow> string \<Rightarrow> pyval \<Rightarrow> 'h world \<Rightarrow> 'h world" where
  "migrated api bridge interface w =
     run_all api
       (map route_add_cmd (old_routes_at api interface (attached api bridge interface w)))
       (addrs_moved api bridge interface
          (routes_deleted api interface (attached api bridge interface w)))"

text \<open>
  A procedure \<open>frames\<close> when it only adds to the executed commands and leaves
  \<open>_IPTABLES_MANAGER\<close> and the binding of \<open>_\<close> alone.
\<close>

definition frames :: "('a, 'h) prog \<Rightarrow> bool" where
  "frames p =
     (\<forall>w. (\<exists>more. issued (snd (p w)) = issued w @ more) \<and>
          iptables_manager (snd (p w)) = iptables_manager w \<and>
          underscore_bound (snd (p w)) = underscore_bound w)"

definition ensure_vlan_bridge ::
  "'h host_api \<Rightarrow> pyval \<Rightarrow> string \<Rightarrow> string \<Rightarrow> pyval \<Rightarrow> pyval \<Rightarrow> (string, 'h) prog" where
  "ensure_vlan_bridge api vlan_num bridge bridge_interface mac_address mtu =
     pbind (ensure_vlan api vlan_num bridge_interface mac_address mtu)
       (\<lambda>interface. pbind (ensure_bridge api bridge (PyStr interface) True True)
       (\<lambda>_. pret interface))"

definition configure :: "iptables_mgr option \<Rightarrow> (unit, 'h) prog" where
  "configure iptables_mgr w = (Inr (), w\<lparr>iptables_manager := iptables_mgr\<rparr>)"

section \<open>\<open>vif_plug_ovs/ovs_hybrid.py\<close>\<close>

text \<open>
  The plugin imports \<open>vif_plug_ovs.linux_net\<close>, whose four functions it calls are
  parameters of the model: the device probe (a read of the world), and the procedures that
  create a veth pair, create an OVS port and delete an OVS port.
\<close>

record 'h ovs_linux_net =
  ovs_device_exists :: "string \<Rightarrow> 'h world \<Rightarrow> bool"
  create_veth_pair :: "string \<Rightarrow> string \<Rightarrow> int \<Rightarrow> (unit, 'h) prog"
  create_ovs_vif_port ::
    "string \<Rightarrow> string \<Rightarrow> string \<Rightarrow> string \<Rightarrow> string \<Rightarrow> int \<Rightarrow> int \<Rightarrow> (unit, 'h) prog"
  delete_ovs_vif_port :: "string \<Rightarrow> string \<Rightarrow> int \<Rightarrow> (unit, 'h) prog"

record config =
  network_device_mtu :: int
  ovs_vsctl_timeout :: int

definition NIC_NAME_LEN :: nat where
  "NIC_NAME_LEN = 14"

definition get_veth_pair_names :: "vif \<Rightarrow> string \<times> string" where
  "get_veth_pair_names v =
     (take NIC_NAME_LEN (''qvb'' @ vif_id v), take NIC_NAME_LEN (''qvo'' @ vif_id v))"

definition tee_cmd :: "string \<Rightarrow> string \<Rightarrow> cmd" where
  "tee_cmd path input =
     \<lparr>argv = [PyStr ''tee'', PyStr path], check_exit_code = Allowed [0, 1],
      run_as_root = True, process_input = Some input\<rparr>"

definition snooping_off_cmd :: "string \<Rightarrow> cmd" where
  "snooping_off_cmd bridge =
     tee_cmd (''/sys/class/net/'' @ bridge @ ''/bridge/multicast_snooping'') ''0''"

definition disv6 :: "string \<Rightarrow> string" where
  "disv6 bridge = ''/proc/sys/net/ipv6/conf/'' @ bridge @ ''/disable_ipv6''"

definition plug_addif_cmd :: "string \<Rightarrow> string \<Rightarrow> cmd" where
  "plug_addif_cmd bridge dev =
     root_cmd [PyStr ''brctl'', PyStr ''addif'', PyStr bridge, PyStr dev]"

definition OvsHybridPlugin_plug ::
  "'h host_api \<Rightarrow> 'h ovs_linux_net \<Rightarrow> config \<Rightarrow> vif \<Rightarrow> instance_info \<Rightarrow> (unit, 'h) prog" where
  "OvsHybridPlugin_plug api linux_net cfg v inst =
     (case port_profile v of
        None \<Rightarrow> praise MissingPortProfile
      | Some (OtherPortProfile cls) \<Rightarrow> praise (WrongPortProfile cls)
      | Some (VIFPortProfileOpenVSwitch iface_id) \<Rightarrow>
          (case get_veth_pair_names v of
             (v1_name, v2_name) \<Rightarrow>
               pbind (\<lambda>w. pwhen (\<not> ovs_device_exists linux_net (bridge_name v) w)
                 (pbind (execute api (addbr_cmd (bridge_name v)))
                 (\<lambda>_. pbind (execute api (setfd_cmd (bridge_name v)))
                 (\<lambda>_. pbind (execute api (stp_off_cmd (bridge_name v)))
                 (\<lambda>_. pbind (execute api (snooping_off_cmd (bridge_name v)))
                 (\<lambda>_. (\<lambda>w. pwhen (path_exists api (disv6 (bridge_name v)) (host w))
                          (pbind (execute api (tee_cmd (disv6 (bridge_name v)) ''1''))
                             (\<lambda>_. pret ())) w)))))) w)
              (\<lambda>_. (\<lambda>w. pwhen (\<not> ovs_device_exists linux_net v2_name w)
                 (pbind (create_veth_pair linux_net v1_name v2_name (network_device_mtu cfg))
                 (\<lambda>_. pbind (execute api (link_up_cmd (bridge_name v)))
                 (\<lambda>_. pbind (execute api (plug_addif_cmd (bridge_name v) v1_name))
                 (\<lambda>_. create_ovs_vif_port linux_net (network_bridge (vif_network v)) v2_name
                         iface_id (address v) (uuid inst) (network_device_mtu cfg)
                         (ovs_vsctl_timeout cfg))))) w))))"

definition OvsHybridPlugin_unplug ::
  "'h host_api \<Rightarrow> 'h ovs_linux_net \<Rightarrow> config \<Rightarrow> vif \<Rightarrow> instance_info \<Rightarrow> (unit, 'h) prog" where
  "OvsHybridPlugin_unplug api linux_net cfg v inst =
     (case port_profile v of
        None \<Rightarrow> praise MissingPortProfile
      | Some (OtherPortProfile cls) \<Rightarrow> praise (WrongPortProfile cls)
      | Some (VIFPortProfileOpenVSwitch iface_id) \<Rightarrow>
          (case get_veth_pair_names v of
             (v1_name, v2_name) \<Rightarrow>
               pbind (\<lambda>w. pwhen (ovs_device_exists linux_net (bridge_name v) w)
                 (pbind (execute api (root_cmd [PyStr ''brctl'', PyStr ''delif'',
                                                PyStr (bridge_name v), PyStr v1_name]))
                 (\<lambda>_. pbind (execute api (root_cmd [PyStr ''ip'', PyStr ''link'', PyStr ''set'',
                                                      PyStr (bridge_name v), PyStr ''down'']))
                 (\<lambda>_. pbind (execute api (root_cmd [PyStr ''brctl'', PyStr ''delbr'',
                                                      PyStr (bridge_name v)]))
                 (\<lambda>_. pret ())))) w)
              (\<lambda>_. delete_ovs_vif_port linux_net (network_bridge (vif_network v)) v2_name
                      (ovs_vsctl_timeout cfg))))"

section \<open>\<open>os_vif/__init__.py\<close>\<close>

text \<open>
  A loaded backend is an object with \<open>plug\<close> and \<open>unplug\<close>.  An extension of the
  manager holds the backend's class, of which the code uses only \<open>load(plugin_name)\<close>,
  and the attribute \<open>obj\<close>, unset until \<open>initialize\<close> stores the loaded object.
\<close>

record 'h plugin_obj =
  obj_plug :: "vif \<Rightarrow> instance_info \<Rightarrow> (unit, 'h) prog"
  obj_unplug :: "vif \<Rightarrow> instance_info \<Rightarrow> (unit, 'h) prog"

record 'h extension =
  ext_load :: "string \<Rightarrow> exn + 'h plugin_obj"
  ext_obj :: "'h plugin_obj option"

text \<open>
  The extension manager: \<open>names()\<close> in discovery order, and item access by name.  Item
  access finds the extension discovered last under a name.
\<close>

record 'h ext_manager =
  names :: "string list"
  by_name :: "string \<rightharpoonup> 'h extension"

definition ExtensionManager ::
  "(string \<times> (string \<Rightarrow> exn + 'h plugin_obj)) list \<Rightarrow> 'h ext_manager" where
  "ExtensionManager found =
     \<lparr>names = map fst found,
      by_name = map_of (rev (map (\<lambda>(n, cls). (n, \<lparr>ext_load = cls, ext_obj = None\<rparr>)) found))\<rparr>"

text \<open>
  The state of the module: the global \<open>_EXT_MANAGER\<close>, and what has been done so far:
  how many times the extensions were discovered, the names handed to \<open>load\<close>, and how
  many times \<open>os_vif.objects.register_all()\<close> ran.
\<close>

record 'h os_vif =
  EXT_MANAGER :: "'h ext_manager option"
  discoveries :: nat
  loads :: "string list"
  register_all_calls :: nat

text \<open>The module as imported: \<open>_EXT_MANAGER = None\<close>, nothing done yet.\<close>

definition os_vif_imported :: "'h os_vif" where
  "os_vif_imported =
     \<lparr>EXT_MANAGER = None, discoveries = 0, loads = [], register_all_calls = 0\<rparr>"

text \<open>The loop of \<open>initialize\<close> over \<open>_EXT_MANAGER.names()\<close>.\<close>

fun load_plugins :: "string list \<Rightarrow> 'h os_vif \<Rightarrow> (exn + unit) \<times> 'h os_vif" where
  "load_plugins [] s = (Inr (), s)"
| "load_plugins (plugin_name # rest) s =
     (case EXT_MANAGER s of
        None \<Rightarrow> (Inl (AttributeError ''names''), s)
      | Some mgr \<Rightarrow>
          (case by_name mgr plugin_name of
             None \<Rightarrow> (Inl (KeyError plugin_name), s)
           | Some ext \<Rightarrow>
               (case ext_load ext plugin_name of
                  Inl e \<Rightarrow> (Inl e, s\<lparr>loads := loads s @ [plugin_name]\<rparr>)
                | Inr obj \<Rightarrow>
                    load_plugins rest
                      (s\<lparr>EXT_MANAGER := Some
                           (mgr\<lparr>by_name := (by_name mgr)
                                   (plugin_name \<mapsto> ext\<lparr>ext_obj := Some obj\<rparr>)\<rparr>),
                         loads := loads s @ [plugin_name]\<rparr>))))"

text \<open>
  \<open>initialize(reset=False)\<close>.  \<open>found\<close> is what the discovery of the namespace
  \<open>os_vif\<close> yields at the time of the call: the entry points installed on the host.
\<close>

definition initialize ::
  "bool \<Rightarrow> (string \<times> (string \<Rightarrow> exn + 'h plugin_obj)) list \<Rightarrow> 'h os_vif \<Rightarrow>
     (exn + unit) \<times> 'h os_vif" where
  "initialize reset found s =
     (if reset \<or> EXT_MANAGER s = None
      then (let mgr = ExtensionManager found;
                s1 = s\<lparr>EXT_MANAGER := Some mgr, discoveries := Suc (discoveries s)\<rparr>
            in case load_plugins (names mgr) s1 of
                 (Inl e, s2) \<Rightarrow> (Inl e, s2)
               | (Inr u, s2) \<Rightarrow>
                   (Inr (), s2\<lparr>register_all_calls := Suc (register_all_calls s2)\<rparr>))
      else (Inr (), s))"

text \<open>
  \<open>plug(vif, instance_info)\<close>.  The handler \<open>except Exception\<close> wraps every exception of
  the backend that is an \<open>Exception\<close>; an extension whose \<open>obj\<close> is unset has no \<open>plug\<close>.
  Logging does not change the control flow and is not modelled.
\<close>

definition plug :: "'h os_vif \<Rightarrow> vif \<Rightarrow> instance_info \<Rightarrow> (unit, 'h) prog" where
  "plug s v inst =
     (case EXT_MANAGER s of
        None \<Rightarrow> praise LibraryNotInitialized
      | Some mgr \<Rightarrow>
          (case by_name mgr (vif_plugin v) of
             None \<Rightarrow> praise (NoMatchingPlugin (vif_plugin v))
           | Some ext \<Rightarrow>
               (\<lambda>w. case (case ext_obj ext of
                             None \<Rightarrow> (Inl (AttributeError ''plug''), w)
                           | Some p \<Rightarrow> obj_plug p v inst w) of
                       (Inl err, w') \<Rightarrow>
                         if is_Exception err then (Inl (PlugException v err), w')
                         else (Inl err, w')
                     | (Inr u, w') \<Rightarrow> (Inr (), w'))))"

definition unplug :: "'h os_vif \<Rightarrow> vif \<Rightarrow> instance_info \<Rightarrow> (unit, 'h) prog" where
  "unplug s v inst =
     (case EXT_MANAGER s of
        None \<Rightarrow> praise LibraryNotInitialized
      | Some mgr \<Rightarrow>
          (case by_name mgr (vif_plugin v) of
             None \<Rightarrow> praise (NoMatchingPlugin (vif_plugin v))
           | Some ext \<Rightarrow>
               (\<lambda>w. case (case ext_obj ext of
                             None \<Rightarrow> (Inl (AttributeError ''unplug''), w)
                           | Some p \<Rightarrow> obj_unplug p v inst w) of
                       (Inl err, w') \<Rightarrow>
                         if is_Exception err then (Inl (UnplugException v err), w')
                         else (Inl err, w')
                     | (Inr u, w') \<Rightarrow> (Inr (), w'))))"

section \<open>A scripted host for the examples\<close>

text \<open>
  The examples run on a host that answers from a script: the paths that exist, the two
  listings \<open>ip route show\<close> and \<open>ip addr show\<close> print, the exit code and error output
  of \<open>brctl addif\<close>, the exit code of every other command, and the exit code of a
  command that has \<open>None\<close> among its arguments.
\<close>

record script =
  paths :: "string list"
  route_listing :: string
  addr_listing :: string
  addif_answer :: "int \<times> string"
  other_exit :: int
  none_arg_exit :: int

definition scripted_run :: "cmd \<Rightarrow> script \<Rightarrow> (int \<times> string \<times> string) \<times> script" where
  "scripted_run c h =
     (if PyNone \<in> set (argv c)
      then ((none_arg_exit h, [], []), h)
      else if take 3 (argv c) = [PyStr ''ip'', PyStr ''route'', PyStr ''show'']
      then ((0, route_listing h, []), h)
      else if take 3 (argv c) = [PyStr ''ip'', PyStr ''addr'', PyStr ''show'']
      then ((0, addr_listing h, []), h)
      else if take 2 (argv c) = [PyStr ''brctl'', PyStr ''addif'']
      then ((fst (addif_answer h), [], snd (addif_answer h)), h)
      else ((other_exit h, [], []), h))"

definition scripted :: "script host_api" where
  "scripted = \<lparr>run_cmd = scripted_run, path_exists = (\<lambda>p h. p \<in> set (paths h))\<rparr>"

definition start :: "script \<Rightarrow> script world" where
  "start h = \<lparr>host = h, trace = [], iptables_manager = None, underscore_bound = False\<rparr>"

definition quiet_host :: script where
  "quiet_host =
     \<lparr>paths = [], route_listing = [], addr_listing = [], addif_answer = (0, []),
      other_exit = 0, none_arg_exit = 0\<rparr>"

text \<open>A host whose tools refuse \<open>None\<close> as an argument, with exit code 255.\<close>

definition strict_host :: script where
  "strict_host = quiet_host\<lparr>none_arg_exit := 255\<rparr>"

text \<open>
  A request and a stand-in for \<open>vif_plug_ovs.linux_net\<close> for the examples: the probe is
  the one of the bridge module, and each procedure issues one command.
\<close>

definition example_vif :: vif where
  "example_vif =
     \<lparr>vif_id = ''b679325f-ca89-4ee0-a8be-6db1409b69ea'', address = ''fa:16:3e:4c:2c:30'',
      vif_plugin = ''ovs_hybrid'', bridge_name = ''qbrb679325f-ca'',
      port_profile = None, vif_network = \<lparr>network_bridge = ''br-int''\<rparr>\<rparr>"

definition example_instance :: instance_info where
  "example_instance = \<lparr>uuid = ''46a4308b-e75a-4f90-a34a-650c86ca18b2''\<rparr>"

definition example_config :: config where
  "example_config = \<lparr>network_device_mtu = 1500, ovs_vsctl_timeout = 120\<rparr>"

definition example_linux_net :: "script ovs_linux_net" where
  "example_linux_net =
     \<lparr>ovs_device_exists = device_exists scripted,
      create_veth_pair = (\<lambda>dev1 dev2 mtu.
        pbind (execute scripted (root_cmd [PyStr ''ip'', PyStr ''link'', PyStr ''add'',
                 PyStr dev1, PyStr ''type'', PyStr ''veth'', PyStr ''peer'', PyStr ''name'',
                 PyStr dev2])) (\<lambda>_. pret ())),
      create_ovs_vif_port = (\<lambda>br dev iface_id mac instance_id mtu timeout.
        pbind (execute scripted (root_cmd [PyStr ''ovs-vsctl'', PyStr ''add-port'',
                 PyStr br, PyStr dev])) (\<lambda>_. pret ())),
      delete_ovs_vif_port = (\<lambda>br dev timeout.
        pbind (execute scripted (root_cmd [PyStr ''ovs-vsctl'', PyStr ''del-port'',
                 PyStr br, PyStr dev])) (\<lambda>_. pret ()))\<rparr>"

definition OvsHybridPlugin :: "script plugin_obj" where
  "OvsHybridPlugin =
     \<lparr>obj_plug = OvsHybridPlugin_plug scripted example_linux_net example_config,
      obj_unplug = OvsHybridPlugin_unplug scripted example_linux_net example_config\<rparr>"

definition example_found :: "(string \<times> (string \<Rightarrow> exn + script plugin_obj)) list" where
  "example_found = [(''ovs_hybrid'', \<lambda>plugin_name. Inr OvsHybridPlugin)]"

definition vlan100_host :: script where
  "vlan100_host = quiet_host\<lparr>paths := [''/sys/class/net/vlan100'']\<rparr>"


text \<open>
  A host on which \<open>eth0\<close> carries the IPv4 address \<open>10.0.0.5/24\<close>, the IPv6 address
  \<open>2001:db8::5/64\<close> (both of global scope), the route of its own subnet and a route to
  \<open>10.0.1.0/24\<close> through the gateway \<open>10.0.0.1\<close>.
\<close>

definition dual_stack_host :: script where
  "dual_stack_host =
     quiet_host
       \<lparr>route_listing :=
          ''10.0.0.0/24  proto kernel  scope link  src 10.0.0.5 \<newline>'' @
          ''10.0.1.0/24 via 10.0.0.1 \<newline>'',
        addr_listing :=
          ''2: eth0: <BROADCAST,MULTICAST,UP,LOWER_UP> mtu 1500 qdisc pfifo_fast state UP\<newline>'' @
          ''    inet 10.0.0.5/24 brd 10.0.0.255 scope global eth0\<newline>'' @
          ''    inet6 2001:db8::5/64 scope global \<newline>''\<rparr>"

text \<open>
  Two hosts on which \<open>brctl addif\<close> fails: one reports that the interface is already a
  member of a bridge, the other that the interface does not exist.
\<close>

definition member_host :: script where
  "member_host =
     quiet_host
       \<lparr>addif_answer :=
          (1, ''device eth0 is already a member of a bridge; can't enslave it to bridge '' @
              ''br100.\<newline>'')\<rparr>"

definition refusing_host :: script where
  "refusing_host =
     quiet_host\<lparr>addif_answer := (1, ''interface eth0 does not exist!\<newline>'')\<rparr>"

text \<open>A host on which the OVS side of the example VIF's veth pair exists, its bridge not.\<close>

definition veth_left_host :: script where
  "veth_left_host = quiet_host\<lparr>paths := [''/sys/class/net/qvob679325f-ca'']\<rparr>"

definition example_ovs_vif :: vif where
  "example_ovs_vif =
     example_vif\<lparr>port_profile :=
       Some (VIFPortProfileOpenVSwitch ''b679325f-ca89-4ee0-a8be-6db1409b69ea'')\<rparr>"

definition example_manager :: iptables_mgr where
  "example_manager =
     \<lparr>filter_rules = [], applied = 0,
      get_gateway_rules = (\<lambda>bridge.
        [[''FORWARD'', ''-i '' @ bridge @ '' -j ACCEPT''],
         [''FORWARD'', ''-o '' @ bridge @ '' -j ACCEPT'']]),
      iptables_drop_action = ''DROP''\<rparr>"

text \<open>
  For the statement about \<open>plug\<close>: the world after the commands of its first block, the
  one for a missing bridge.  The path of \<open>disable_ipv6\<close> is looked up after the first
  four commands.
\<close>

definition hybrid_bridge_created :: "'h host_api \<Rightarrow> string \<Rightarrow> 'h world \<Rightarrow> 'h world" where
  "hybrid_bridge_created api b w =
     (if path_exists api (disv6 b)
           (host (run_all api [addbr_cmd b, setfd_cmd b, stp_off_cmd b, snooping_off_cmd b] w))
      then run_all api [addbr_cmd b, setfd_cmd b, stp_off_cmd b, snooping_off_cmd b,
                        tee_cmd (disv6 b) ''1''] w
      else run_all api [addbr_cmd b, setfd_cmd b, stp_off_cmd b, snooping_off_cmd b] w)"

section \<open>Basic facts about the executor\<close>

lemma issued_execute: "issued (snd (execute api c w)) = issued w @ [c]"
  by (simp add: execute_def issued_def Let_def split: prod.splits)

lemma pbind_Inr:
  "pbind m f w = (Inr r, w') \<Longrightarrow> \<exists>x w1. m w = (Inr x, w1) \<and> f x w1 = (Inr r, w')"
  by (auto simp: pbind_def split: prod.splits sum.splits)

lemma vlan100: "''vlan'' @ py_str (PyInt 100) = ''vlan100''"
  by code_simp

lemma snd_execute:
  "snd (execute api c w) =
     w\<lparr>host := snd (run_cmd api c (host w)),
       trace := trace w @ [(c, fst (run_cmd api c (host w)))]\<rparr>"
  by (simp add: execute_def Let_def split: prod.splits)

lemma execute_Inr_iff:
  "execute api c w = (Inr x, w1) \<longleftrightarrow>
     exit_ok (check_exit_code c) (fst (fst (run_cmd api c (host w)))) \<and>
     x = (stdout_of api c w, stderr_of api c w) \<and> w1 = run_all api [c] w"
  by (auto simp: execute_def Let_def stdout_of_def stderr_of_def split: prod.splits)

lemma pbind_Inr_iff:
  "pbind m f w = (Inr r, w') \<longleftrightarrow> (\<exists>x w1. m w = (Inr x, w1) \<and> f x w1 = (Inr r, w'))"
  by (auto simp: pbind_def split: prod.splits sum.splits)

lemma run_all_append: "run_all api (xs @ ys) w = run_all api ys (run_all api xs w)"
  by (induction xs arbitrary: w) simp_all

lemma issued_run_all: "issued (run_all api cs w) = issued w @ cs"
  by (induction cs arbitrary: w) (simp_all add: issued_execute)

lemma run_all_keeps:
  "iptables_manager (run_all api cs w) = iptables_manager w \<and>
   underscore_bound (run_all api cs w) = underscore_bound w"
  by (induction cs arbitrary: w) (simp_all add: snd_execute)

lemma four_Inr_iff:
  "pbind (execute api c1) (\<lambda>_. pbind (execute api c2) (\<lambda>_. pbind (execute api c3)
     (\<lambda>_. pbind (execute api c4) (\<lambda>_. pret ())))) w = (Inr u, w1) \<longleftrightarrow>
   accepted_all api [c1, c2, c3, c4] w \<and> w1 = run_all api [c1, c2, c3, c4] w"
  by (auto simp: pbind_Inr_iff execute_Inr_iff pret_def)

lemma del_routes_Inr:
  "del_routes api lines acc w = (Inr r, w') \<Longrightarrow>
     r = acc @ filter (\<lambda>flds. flds \<noteq> [] \<and> ''via'' \<in> set flds) (map split_ws lines) \<and>
     w' = run_all api (map route_del_cmd
            (filter (\<lambda>flds. flds \<noteq> [] \<and> ''via'' \<in> set flds) (map split_ws lines))) w"
proof (induction lines arbitrary: acc w)
  case Nil
  then show ?case by (simp add: pret_def)
next
  case (Cons line lines)
  show ?case
  proof (cases "split_ws line \<noteq> [] \<and> ''via'' \<in> set (split_ws line)")
    case True
    with Cons.prems obtain x w1 where
      e: "execute api (route_del_cmd (split_ws line)) w = (Inr x, w1)" and
      r: "del_routes api lines (acc @ [split_ws line]) w1 = (Inr r, w')"
      by (auto simp: Let_def dest: pbind_Inr)
    from e have "w1 = run_all api [route_del_cmd (split_ws line)] w"
      by (simp add: execute_Inr_iff)
    with Cons.IH [OF r] True show ?thesis by simp
  next
    case False
    with Cons.prems have "del_routes api lines acc w = (Inr r, w')"
      by (auto simp: Let_def)
    from Cons.IH [OF this] False show ?thesis by auto
  qed
qed

lemma move_addrs_Inr:
  "move_addrs api bridge lines w = (Inr u, w') \<Longrightarrow>
     w' = run_all api (addr_moves bridge
            (filter (\<lambda>flds. flds \<noteq> [] \<and> hd flds = ''inet'') (map split_ws lines))) w"
proof (induction lines arbitrary: w)
  case Nil
  then show ?case by (simp add: pret_def addr_moves_def)
next
  case (Cons line lines)
  show ?case
  proof (cases "split_ws line \<noteq> [] \<and> hd (split_ws line) = ''inet''")
    case True
    with Cons.prems have long: "\<not> length (split_ws line) < 2"
      by (auto simp: Let_def praise_def)
    with True Cons.prems obtain x w1 y w2 where
      d: "execute api (addr_cmd ''del'' (addr_params (split_ws line)) (last (split_ws line))) w
            = (Inr x, w1)" and
      a: "execute api (addr_cmd ''add'' (addr_params (split_ws line)) bridge) w1 = (Inr y, w2)" and
      r: "move_addrs api bridge lines w2 = (Inr u, w')"
      by (simp add: Let_def) (blast dest: pbind_Inr)
    from d a have "w2 = run_all api
        [addr_cmd ''del'' (addr_params (split_ws line)) (last (split_ws line)),
         addr_cmd ''add'' (addr_params (split_ws line)) bridge] w"
      by (simp add: execute_Inr_iff)
    with Cons.IH [OF r] True show ?thesis
      by (simp add: addr_moves_def)
  next
    case False
    with Cons.prems have "move_addrs api bridge lines w = (Inr u, w')"
      by (auto simp: Let_def)
    from Cons.IH [OF this] False show ?thesis by (auto simp: addr_moves_def)
  qed
qed

lemma add_routes_Inr:
  "add_routes api routes w = (Inr u, w') \<Longrightarrow> w' = run_all api (map route_add_cmd routes) w"
proof (induction routes arbitrary: w)
  case Nil
  then show ?case by (simp add: pret_def)
next
  case (Cons flds routes)
  then obtain x w1 where
    e: "execute api (route_add_cmd flds) w = (Inr x, w1)" and
    r: "add_routes api routes w1 = (Inr u, w')"
    by (auto dest: pbind_Inr)
  from e have "w1 = run_all api [route_add_cmd flds] w" by (simp add: execute_Inr_iff)
  with Cons.IH [OF r] show ?case by simp
qed

lemma via_routes_filter:
  "filter (\<lambda>flds. flds \<noteq> [] \<and> ''via'' \<in> set flds) (map split_ws (split_chr CHR 0x0A out)) =
     via_routes out"
  by (simp add: via_routes_def listed_def conj_commute)

lemma inet_addrs_filter:
  "filter (\<lambda>flds. flds \<noteq> [] \<and> hd flds = ''inet'') (map split_ws (split_chr CHR 0x0A out)) =
     inet_addrs out"
  by (simp add: inet_addrs_def listed_def conj_commute)

lemma frames_execute: "frames (execute api c)"
  by (auto simp: frames_def issued_def snd_execute)

lemma frames_pret: "frames (pret x)"
  by (simp add: frames_def pret_def)

lemma frames_praise: "frames (praise e)"
  by (simp add: frames_def praise_def)

lemma framesD:
  "frames p \<Longrightarrow> (\<exists>more. issued (snd (p w)) = issued w @ more) \<and>
     iptables_manager (snd (p w)) = iptables_manager w \<and>
     underscore_bound (snd (p w)) = underscore_bound w"
  unfolding frames_def by blast

lemma frames_pbind:
  assumes "frames m" and "\<And>x. frames (f x)"
  shows "frames (pbind m f)"
proof -
  have "(\<exists>more. issued (snd (pbind m f w)) = issued w @ more) \<and>
        iptables_manager (snd (pbind m f w)) = iptables_manager w \<and>
        underscore_bound (snd (pbind m f w)) = underscore_bound w" for w
  proof (cases "m w")
    case (Pair r w1)
    from framesD [OF assms(1), of w] Pair
    obtain more where m: "issued w1 = issued w @ more"
        "iptables_manager w1 = iptables_manager w" "underscore_bound w1 = underscore_bound w"
      by auto
    show ?thesis
    proof (cases r)
      case (Inl e)
      with Pair m show ?thesis by (simp add: pbind_def)
    next
      case (Inr x)
      from framesD [OF assms(2), of x w1]
      obtain more' where "issued (snd (f x w1)) = issued w1 @ more'"
        "iptables_manager (snd (f x w1)) = iptables_manager w1"
        "underscore_bound (snd (f x w1)) = underscore_bound w1"
        by auto
      with Pair Inr m show ?thesis by (simp add: pbind_def)
    qed
  qed
  then show ?thesis unfolding frames_def by blast
qed

lemma frames_pwhen: "frames m \<Longrightarrow> frames (pwhen b m)"
  by (simp add: pwhen_def frames_pret)

lemma frames_case_prod: "(\<And>a b. frames (f a b)) \<Longrightarrow> frames (case p of (a, b) \<Rightarrow> f a b)"
  by (cases p) simp


lemma frames_del_routes: "frames (del_routes api lines acc)"
proof (induction lines arbitrary: acc)
  case Nil
  show ?case by (simp add: frames_pret)
next
  case (Cons line lines)
  have "frames (pbind (execute api (route_del_cmd (split_ws line)))
                  (\<lambda>_. del_routes api lines (acc @ [split_ws line])))"
    by (intro frames_pbind frames_execute Cons.IH)
  with Cons.IH [of acc] show ?case by (simp add: Let_def)
qed

lemma frames_add_routes: "frames (add_routes api routes)"
proof (induction routes)
  case Nil
  show ?case by (simp add: frames_pret)
next
  case (Cons flds routes)
  then show ?case by (simp add: frames_pbind frames_execute)
qed

lemma frames_move_addrs: "frames (move_addrs api bridge lines)"
proof (induction lines)
  case Nil
  show ?case by (simp add: frames_pret)
next
  case (Cons line lines)
  have "frames (pbind (execute api (addr_cmd ''del'' (addr_params (split_ws line))
                          (last (split_ws line))))
           (\<lambda>_. pbind (execute api (addr_cmd ''add'' (addr_params (split_ws line)) bridge))
           (\<lambda>_. move_addrs api bridge lines)))"
    by (intro frames_pbind frames_execute Cons.IH)
  with Cons.IH show ?case by (simp add: Let_def frames_praise)
qed

lemma frames_migrate: "frames (migrate api bridge interface)"
  unfolding migrate_def
  by (intro frames_pbind frames_execute frames_case_prod frames_del_routes frames_move_addrs
        frames_add_routes)

lemma pbind_assoc: "pbind (pbind m f) g = pbind m (\<lambda>x. pbind (f x) g)"
  by (rule ext) (simp add: pbind_def split: prod.splits sum.splits)

lemma pbind_pret: "pbind (pret x) f = f x"
  by (rule ext) (simp add: pbind_def pret_def)

lemma pwhen_False: "pwhen False m = pret ()"
  by (simp add: pwhen_def)

lemma pbind_step: "m w = (Inr x, w1) \<Longrightarrow> pbind m f w = f x w1"
  by (simp add: pbind_def)

section \<open>\<open>ensure_vlan\<close>\<close>

lemma ensure_vlan_existing:
  assumes "device_exists api (''vlan'' @ py_str vlan_num) w"
  shows "ensure_vlan api vlan_num bridge_interface mac_address mtu w =
           pbind (set_device_mtu api (''vlan'' @ py_str vlan_num) mtu)
             (\<lambda>_. pret (''vlan'' @ py_str vlan_num)) w"
  using assms by (simp add: ensure_vlan_def pbind_def pwhen_def pret_def Let_def)

lemma mtu_step_issued:
  "issued (snd (pbind (set_device_mtu api dev mtu) (\<lambda>_. pret dev) w)) =
     issued w @ [mtu_cmd dev mtu]"
  by (simp add: pbind_def set_device_mtu_def pret_def execute_def issued_def Let_def
           split: prod.splits)

lemma mtu_step_result:
  "fst (pbind (set_device_mtu api dev mtu) (\<lambda>_. pret dev) w) =
     (if fst (fst (run_cmd api (mtu_cmd dev mtu) (host w))) \<in> {0, 2, 254}
      then Inr dev
      else Inl (ProcessExecutionError (fst (fst (run_cmd api (mtu_cmd dev mtu) (host w))))))"
  by (simp add: pbind_def set_device_mtu_def pret_def execute_def mtu_cmd_def Let_def
           split: prod.splits)

lemma ensure_vlan_returns:
  assumes "ensure_vlan api vlan_num bridge_interface mac_address mtu w = (Inr r, w')"
  shows "r = ''vlan'' @ py_str vlan_num \<and> issued w' \<noteq> [] \<and>
         last (issued w') = mtu_cmd (''vlan'' @ py_str vlan_num) mtu"
proof -
  from assms obtain x :: unit and w1 where
    "pbind (set_device_mtu api (''vlan'' @ py_str vlan_num) mtu)
       (\<lambda>_. pret (''vlan'' @ py_str vlan_num)) w1 = (Inr r, w')"
    unfolding ensure_vlan_def Let_def by (blast dest: pbind_Inr)
  then obtain y w2 where
    mtu_step: "set_device_mtu api (''vlan'' @ py_str vlan_num) mtu w1 = (Inr y, w2)" and
    ret_step: "pret (''vlan'' @ py_str vlan_num) w2 = (Inr r, w')"
    by (blast dest: pbind_Inr)
  from ret_step have r: "r = ''vlan'' @ py_str vlan_num" and w: "w' = w2"
    by (simp_all add: pret_def)
  from mtu_step have "issued w2 = issued w1 @ [mtu_cmd (''vlan'' @ py_str vlan_num) mtu]"
    using issued_execute [of api "mtu_cmd (''vlan'' @ py_str vlan_num) mtu" w1]
    by (simp add: set_device_mtu_def)
  with r w show ?thesis by simp
qed

lemma pbind_execute_accepted:
  "exit_ok (check_exit_code c) (fst (fst (run_cmd api c (host w)))) \<Longrightarrow>
     pbind (execute api c) f w =
       f (stdout_of api c w, stderr_of api c w) (snd (execute api c w))"
  by (auto simp: pbind_def execute_def stdout_of_def stderr_of_def Let_def split: prod.splits)

lemma ensure_vlan_created:
  assumes absent: "\<not> device_exists api (''vlan'' @ py_str vlan_num) w"
    and acc: "accepted_all api
      (vlan_creation bridge_interface (''vlan'' @ py_str vlan_num) vlan_num mac_address) w"
  shows "ensure_vlan api vlan_num bridge_interface mac_address mtu w =
           pbind (set_device_mtu api (''vlan'' @ py_str vlan_num) mtu)
             (\<lambda>_. pret (''vlan'' @ py_str vlan_num))
             (run_all api
                (vlan_creation bridge_interface (''vlan'' @ py_str vlan_num) vlan_num
                   mac_address) w)"
proof -
  let ?i = "''vlan'' @ py_str vlan_num"
  let ?create = "pbind (execute api (vlan_add_cmd bridge_interface ?i vlan_num))
               (\<lambda>_. pbind (pwhen (truthy mac_address)
                             (pbind (execute api (vlan_mac_cmd ?i mac_address))
                                (\<lambda>_. pret ())))
               (\<lambda>_. pbind (execute api (vlan_up_cmd ?i))
               (\<lambda>_. pret ())))"
  have "?create w =
          (Inr (), run_all api (vlan_creation bridge_interface ?i vlan_num mac_address) w)"
  proof (cases "truthy mac_address")
    case True
    with acc show ?thesis
      by (simp add: vlan_creation_def pwhen_def pbind_assoc pbind_pret
            pbind_execute_accepted pret_def)
  next
    case False
    with acc show ?thesis
      by (simp add: vlan_creation_def pwhen_def pbind_pret pbind_execute_accepted pret_def)
  qed
  with absent have "(\<lambda>w. pwhen (\<not> device_exists api ?i w) ?create w) w =
          (Inr (), run_all api (vlan_creation bridge_interface ?i vlan_num mac_address) w)"
    by (simp add: pwhen_def)
  from pbind_step [of "\<lambda>w. pwhen (\<not> device_exists api ?i w) ?create w" w "()"
      "run_all api (vlan_creation bridge_interface ?i vlan_num mac_address) w"
      "\<lambda>_. pbind (set_device_mtu api ?i mtu) (\<lambda>_. pret ?i)", OF this]
  show ?thesis
    by (simp add: ensure_vlan_def Let_def del: run_all.simps)
qed

text \<open>
  C5.  When the interface \<open>vlan<vlan_num>\<close> exists, a call of \<open>ensure_vlan\<close> executes
  exactly one command, the MTU command of that interface: no \<open>ip link add\<close>, no MAC
  setting, no link up.  It returns the interface name when the host's exit code for that
  command is one of the accepted 0, 2, 254.  And whenever a call returns, in whatever state
  it started, it returns the derived name and the last command it executed is the MTU
  command.
\<close>

theorem ensure_vlan_idempotent:
  assumes "device_exists api (''vlan'' @ py_str vlan_num) w"
  shows "issued (snd (ensure_vlan api vlan_num bridge_interface mac_address mtu w)) =
           issued w @ [mtu_cmd (''vlan'' @ py_str vlan_num) mtu] \<and>
         (fst (fst (run_cmd api (mtu_cmd (''vlan'' @ py_str vlan_num) mtu) (host w)))
             \<in> {0, 2, 254} \<longrightarrow>
          fst (ensure_vlan api vlan_num bridge_interface mac_address mtu w) =
            Inr (''vlan'' @ py_str vlan_num)) \<and>
         (\<forall>w0 r w'. ensure_vlan api vlan_num bridge_interface mac_address mtu w0 = (Inr r, w')
            \<longrightarrow> r = ''vlan'' @ py_str vlan_num \<and>
                last (issued w') = mtu_cmd (''vlan'' @ py_str vlan_num) mtu)"
proof (intro conjI impI allI)
  show "issued (snd (ensure_vlan api vlan_num bridge_interface mac_address mtu w)) =
           issued w @ [mtu_cmd (''vlan'' @ py_str vlan_num) mtu]"
    by (simp only: ensure_vlan_existing [OF assms] mtu_step_issued)
next
  assume "fst (fst (run_cmd api (mtu_cmd (''vlan'' @ py_str vlan_num) mtu) (host w)))
             \<in> {0, 2, 254}"
  then show "fst (ensure_vlan api vlan_num bridge_interface mac_address mtu w) =
            Inr (''vlan'' @ py_str vlan_num)"
    by (simp only: ensure_vlan_existing [OF assms] mtu_step_result if_True)
next
  fix w0 r w'
  assume "ensure_vlan api vlan_num bridge_interface mac_address mtu w0 = (Inr r, w')"
  from ensure_vlan_returns [OF this]
  show "r = ''vlan'' @ py_str vlan_num" and
    "last (issued w') = mtu_cmd (''vlan'' @ py_str vlan_num) mtu"
    by simp_all
qed

theorem ensure_vlan_idempotent_witness:
  "device_exists scripted ''vlan100'' (start vlan100_host) \<and>
   fst (ensure_vlan scripted (PyInt 100) ''eth0'' (PyStr ''fa:16:3e:00:00:01'') (PyInt 1450)
          (start vlan100_host)) = Inr ''vlan100'' \<and>
   issued (snd (ensure_vlan scripted (PyInt 100) ''eth0'' (PyStr ''fa:16:3e:00:00:01'')
          (PyInt 1450) (start vlan100_host))) = [mtu_cmd ''vlan100'' (PyInt 1450)]"
proof -
  have there: "device_exists scripted ''vlan100'' (start vlan100_host)"
    by code_simp
  have accepted: "fst (fst (run_cmd scripted (mtu_cmd ''vlan100'' (PyInt 1450))
      (host (start vlan100_host)))) \<in> {0, 2, 254}"
    by code_simp
  have fresh: "issued (start vlan100_host) = []"
    by (simp add: issued_def start_def)
  note ensure_vlan_idempotent [of scripted "PyInt 100" "start vlan100_host" "''eth0''"
      "PyStr ''fa:16:3e:00:00:01''" "PyInt 1450", unfolded vlan100 fresh append_Nil,
      OF there]
  with there accepted show ?thesis by blast
qed

text \<open>
  C10.  With \<open>mtu\<close> omitted (\<open>None\<close>) the MTU step is not skipped: the command is
  \<open>ip link set vlan<vlan_num> mtu None\<close>, with \<open>None\<close> itself as the operand.  On an
  existing interface it is the one command executed.  On a missing interface it is
  executed right after the commands that create the interface, when these are accepted,
  whatever its own exit code turns out to be.  And every call that returns has executed
  it last.
\<close>

theorem ensure_vlan_mtu_none:
  "(device_exists api (''vlan'' @ py_str vlan_num) w \<longrightarrow>
      map argv (issued (snd (ensure_vlan api vlan_num bridge_interface mac_address PyNone w))) =
        map argv (issued w) @
        [[PyStr ''ip'', PyStr ''link'', PyStr ''set'', PyStr (''vlan'' @ py_str vlan_num),
          PyStr ''mtu'', PyNone]]) \<and>
   (\<not> device_exists api (''vlan'' @ py_str vlan_num) w \<and>
    accepted_all api
      (vlan_creation bridge_interface (''vlan'' @ py_str vlan_num) vlan_num mac_address) w
    \<longrightarrow>
      map argv (issued (snd (ensure_vlan api vlan_num bridge_interface mac_address PyNone w))) =
        map argv (issued w) @
        map argv (vlan_creation bridge_interface (''vlan'' @ py_str vlan_num) vlan_num
                    mac_address) @
        [[PyStr ''ip'', PyStr ''link'', PyStr ''set'', PyStr (''vlan'' @ py_str vlan_num),
          PyStr ''mtu'', PyNone]]) \<and>
   (\<forall>r w'. ensure_vlan api vlan_num bridge_interface mac_address PyNone w = (Inr r, w') \<longrightarrow>
      issued w' \<noteq> [] \<and>
      argv (last (issued w')) =
        [PyStr ''ip'', PyStr ''link'', PyStr ''set'', PyStr (''vlan'' @ py_str vlan_num),
         PyStr ''mtu'', PyNone])"
proof (intro conjI impI allI)
  assume "device_exists api (''vlan'' @ py_str vlan_num) w"
  then show "map argv (issued (snd (ensure_vlan api vlan_num bridge_interface mac_address
        PyNone w))) =
        map argv (issued w) @
        [[PyStr ''ip'', PyStr ''link'', PyStr ''set'', PyStr (''vlan'' @ py_str vlan_num),
          PyStr ''mtu'', PyNone]]"
    by (simp add: ensure_vlan_existing mtu_step_issued mtu_cmd_def)
next
  assume "\<not> device_exists api (''vlan'' @ py_str vlan_num) w \<and>
    accepted_all api
      (vlan_creation bridge_interface (''vlan'' @ py_str vlan_num) vlan_num mac_address) w"
  then show "map argv (issued (snd (ensure_vlan api vlan_num bridge_interface mac_address
        PyNone w))) =
        map argv (issued w) @
        map argv (vlan_creation bridge_interface (''vlan'' @ py_str vlan_num) vlan_num
                    mac_address) @
        [[PyStr ''ip'', PyStr ''link'', PyStr ''set'', PyStr (''vlan'' @ py_str vlan_num),
          PyStr ''mtu'', PyNone]]"
    by (simp add: ensure_vlan_created mtu_step_issued issued_run_all mtu_cmd_def
          del: run_all.simps)
next
  fix r w'
  assume "ensure_vlan api vlan_num bridge_interface mac_address PyNone w = (Inr r, w')"
  from ensure_vlan_returns [OF this]
  show "issued w' \<noteq> []" and
    "argv (last (issued w')) =
        [PyStr ''ip'', PyStr ''link'', PyStr ''set'', PyStr (''vlan'' @ py_str vlan_num),
         PyStr ''mtu'', PyNone]"
    by (simp_all add: mtu_cmd_def)
qed

theorem ensure_vlan_mtu_none_witness:
  "\<not> device_exists scripted ''vlan100'' (start strict_host) \<and>
   accepted_all scripted (vlan_creation ''eth0'' ''vlan100'' (PyInt 100) PyNone)
     (start strict_host) \<and>
   fst (ensure_vlan scripted (PyInt 100) ''eth0'' PyNone PyNone (start strict_host)) =
     Inl (ProcessExecutionError 255) \<and>
   map argv (issued (snd (ensure_vlan scripted (PyInt 100) ''eth0'' PyNone PyNone
       (start strict_host)))) =
     [[PyStr ''ip'', PyStr ''link'', PyStr ''add'', PyStr ''link'', PyStr ''eth0'',
       PyStr ''name'', PyStr ''vlan100'', PyStr ''type'', PyStr ''vlan'', PyStr ''id'',
       PyInt 100],
      [PyStr ''ip'', PyStr ''link'', PyStr ''set'', PyStr ''vlan100'', PyStr ''up''],
      [PyStr ''ip'', PyStr ''link'', PyStr ''set'', PyStr ''vlan100'', PyStr ''mtu'', PyNone]]"
proof -
  have absent: "\<not> device_exists scripted ''vlan100'' (start strict_host)"
    by code_simp
  have acc: "accepted_all scripted (vlan_creation ''eth0'' ''vlan100'' (PyInt 100) PyNone)
     (start strict_host)"
    by code_simp
  have refused: "fst (ensure_vlan scripted (PyInt 100) ''eth0'' PyNone PyNone
      (start strict_host)) = Inl (ProcessExecutionError 255)"
    by code_simp
  have fresh: "map argv (issued (start strict_host)) = []"
    by (simp add: issued_def start_def)
  have made: "map argv (vlan_creation ''eth0'' ''vlan100'' (PyInt 100) PyNone) =
     [[PyStr ''ip'', PyStr ''link'', PyStr ''add'', PyStr ''link'', PyStr ''eth0'',
       PyStr ''name'', PyStr ''vlan100'', PyStr ''type'', PyStr ''vlan'', PyStr ''id'',
       PyInt 100],
      [PyStr ''ip'', PyStr ''link'', PyStr ''set'', PyStr ''vlan100'', PyStr ''up'']]"
    by code_simp
  from ensure_vlan_mtu_none [of scripted "PyInt 100" "start strict_host" "''eth0''" PyNone,
      unfolded vlan100] absent acc
  have "map argv (issued (snd (ensure_vlan scripted (PyInt 100) ''eth0'' PyNone PyNone
       (start strict_host)))) =
     map argv (issued (start strict_host)) @
     map argv (vlan_creation ''eth0'' ''vlan100'' (PyInt 100) PyNone) @
     [[PyStr ''ip'', PyStr ''link'', PyStr ''set'', PyStr ''vlan100'', PyStr ''mtu'', PyNone]]"
    by blast
  then have "map argv (issued (snd (ensure_vlan scripted (PyInt 100) ''eth0'' PyNone PyNone
       (start strict_host)))) =
     [[PyStr ''ip'', PyStr ''link'', PyStr ''add'', PyStr ''link'', PyStr ''eth0'',
       PyStr ''name'', PyStr ''vlan100'', PyStr ''type'', PyStr ''vlan'', PyStr ''id'',
       PyInt 100],
      [PyStr ''ip'', PyStr ''link'', PyStr ''set'', PyStr ''vlan100'', PyStr ''up''],
      [PyStr ''ip'', PyStr ''link'', PyStr ''set'', PyStr ''vlan100'', PyStr ''mtu'', PyNone]]"
    by (simp only: fresh made append_Nil append.simps)
  with absent acc refused show ?thesis by blast
qed

section \<open>\<open>ensure_bridge\<close>\<close>

lemma migrate_Inr:
  assumes "migrate api bridge interface w = (Inr u, w')"
  shows "w' = run_all api (map route_add_cmd (old_routes_at api interface w))
                (addrs_moved api bridge interface (routes_deleted api interface w))"
proof -
  from assms obtain old w2 v w4 where
    d: "del_routes api (split_chr CHR 0x0A (stdout_of api (route_show_cmd interface) w)) []
          (run_all api [route_show_cmd interface] w) = (Inr old, w2)" and
    m: "move_addrs api bridge (split_chr CHR 0x0A (stdout_of api (addr_show_cmd interface) w2))
          (run_all api [addr_show_cmd interface] w2) = (Inr v, w4)" and
    a: "add_routes api old w4 = (Inr u, w')"
    unfolding migrate_def by (auto simp: pbind_Inr_iff execute_Inr_iff)
  from del_routes_Inr [OF d] have old: "old = old_routes_at api interface w"
    and w2: "w2 = routes_deleted api interface w"
    by (simp_all add: via_routes_filter old_routes_at_def routes_deleted_def)
  from move_addrs_Inr [OF m] have w4: "w4 = addrs_moved api bridge interface w2"
    by (simp add: inet_addrs_filter addrs_moved_def addrs_at_def)
  from add_routes_Inr [OF a] show ?thesis by (simp add: w4 w2 old)
qed

lemma apply_filtering_world:
  "host (snd (apply_filtering bridge gateway w)) = host w \<and>
   trace (snd (apply_filtering bridge gateway w)) = trace w"
  by (simp add: apply_filtering_def split: option.splits)

lemma pbind_stop: "m w = (Inl e, w1) \<Longrightarrow> pbind m f w = (Inl e, w1)"
  by (simp add: pbind_def)

lemma pbind_at: "m w = m' w' \<Longrightarrow> pbind m f w = pbind m' f w'"
  by (simp add: pbind_def)

lemma setup_accepted:
  assumes "accepted_all api (bridge_setup api bridge w) w"
  shows "pwhen (\<not> device_exists api bridge w)
           (pbind (execute api (addbr_cmd bridge))
           (\<lambda>_. pbind (execute api (setfd_cmd bridge))
           (\<lambda>_. pbind (execute api (stp_off_cmd bridge))
           (\<lambda>_. pbind (execute api (link_up_cmd bridge))
           (\<lambda>_. pret ()))))) w = (Inr (), run_all api (bridge_setup api bridge w) w)"
proof (cases "device_exists api bridge w")
  case True
  then show ?thesis by (simp add: pwhen_def pret_def bridge_setup_def)
next
  case False
  with assms have "accepted_all api
      [addbr_cmd bridge, setfd_cmd bridge, stp_off_cmd bridge, link_up_cmd bridge] w"
    by (simp add: bridge_setup_def)
  with four_Inr_iff [of api "addbr_cmd bridge" "setfd_cmd bridge" "stp_off_cmd bridge"
      "link_up_cmd bridge" w "()"
      "run_all api [addbr_cmd bridge, setfd_cmd bridge, stp_off_cmd bridge, link_up_cmd bridge] w"]
  have "pbind (execute api (addbr_cmd bridge))
           (\<lambda>_. pbind (execute api (setfd_cmd bridge))
           (\<lambda>_. pbind (execute api (stp_off_cmd bridge))
           (\<lambda>_. pbind (execute api (link_up_cmd bridge))
           (\<lambda>_. pret ())))) w =
        (Inr (), run_all api
           [addbr_cmd bridge, setfd_cmd bridge, stp_off_cmd bridge, link_up_cmd bridge] w)"
    by blast
  with False show ?thesis by (simp add: pwhen_def bridge_setup_def)
qed

lemma setup_Inr:
  assumes "pwhen (\<not> device_exists api bridge w)
           (pbind (execute api (addbr_cmd bridge))
           (\<lambda>_. pbind (execute api (setfd_cmd bridge))
           (\<lambda>_. pbind (execute api (stp_off_cmd bridge))
           (\<lambda>_. pbind (execute api (link_up_cmd bridge))
           (\<lambda>_. pret ()))))) w = (Inr u, w1)"
  shows "accepted_all api (bridge_setup api bridge w) w"
proof (cases "device_exists api bridge w")
  case True
  then show ?thesis by (simp add: bridge_setup_def)
next
  case False
  with assms have "pbind (execute api (addbr_cmd bridge))
           (\<lambda>_. pbind (execute api (setfd_cmd bridge))
           (\<lambda>_. pbind (execute api (stp_off_cmd bridge))
           (\<lambda>_. pbind (execute api (link_up_cmd bridge))
           (\<lambda>_. pret ())))) w = (Inr u, w1)"
    by (simp add: pwhen_def)
  then have "accepted_all api
      [addbr_cmd bridge, setfd_cmd bridge, stp_off_cmd bridge, link_up_cmd bridge] w"
    by (simp only: four_Inr_iff)
  with False show ?thesis by (simp add: bridge_setup_def)
qed

lemma ensure_bridge_truthy:
  assumes t: "truthy interface" and acc: "accepted_all api (bridge_setup api bridge w) w"
  shows "ensure_bridge api bridge interface gateway filtering w =
     (if stderr_of api (addif_cmd bridge interface)
            (run_all api (bridge_setup api bridge w) w) \<noteq> [] \<and>
         stderr_of api (addif_cmd bridge interface)
            (run_all api (bridge_setup api bridge w) w) \<noteq> already_member_msg interface bridge
      then (Inl (if underscore_bound w
                 then Exception (''Failed to add interface: '' @
                        stderr_of api (addif_cmd bridge interface)
                          (run_all api (bridge_setup api bridge w) w))
                 else NameError ''_''),
            run_all api (bridge_setup api bridge w @ [addif_cmd bridge interface]) w)
      else pbind (migrate api bridge interface)
             (\<lambda>_. pwhen filtering (apply_filtering bridge gateway))
             (attached api bridge interface w))"
proof -
  let ?w0 = "run_all api (bridge_setup api bridge w) w"
  let ?err = "stderr_of api (addif_cmd bridge interface) ?w0"
  let ?w1 = "run_all api [addif_cmd bridge interface] ?w0"
  let ?w2 = "run_all api [iface_up_cmd interface] ?w1"
  let ?guard = "\<lambda>err w. pwhen (err \<noteq> [] \<and> err \<noteq> already_member_msg interface bridge)
                          (if underscore_bound w
                           then praise (Exception (''Failed to add interface: '' @ err))
                           else praise (NameError ''_'')) w"
  let ?after = "\<lambda>err. pbind (?guard err)
                  (\<lambda>_. pbind (execute api (iface_up_cmd interface))
                  (\<lambda>_. migrate api bridge interface))"
  let ?B = "pwhen (truthy interface)
              (pbind (execute api (addif_cmd bridge interface)) (\<lambda>(out, err). ?after err))"
  let ?F = "\<lambda>_::unit. pwhen filtering (apply_filtering bridge gateway)"
  let ?A = "\<lambda>w. pwhen (\<not> device_exists api bridge w)
           (pbind (execute api (addbr_cmd bridge))
           (\<lambda>_. pbind (execute api (setfd_cmd bridge))
           (\<lambda>_. pbind (execute api (stp_off_cmd bridge))
           (\<lambda>_. pbind (execute api (link_up_cmd bridge))
           (\<lambda>_. pret ()))))) w"
  have e1: "execute api (addif_cmd bridge interface) ?w0 =
              (Inr (stdout_of api (addif_cmd bridge interface) ?w0, ?err), ?w1)"
    by (simp add: execute_Inr_iff addif_cmd_def)
  have e2: "execute api (iface_up_cmd interface) ?w1 =
              (Inr (stdout_of api (iface_up_cmd interface) ?w1,
                    stderr_of api (iface_up_cmd interface) ?w1), ?w2)"
    by (simp add: execute_Inr_iff iface_up_cmd_def)
  have ub: "underscore_bound ?w1 = underscore_bound w"
    by (simp only: run_all_keeps)
  have w1: "?w1 = run_all api (bridge_setup api bridge w @ [addif_cmd bridge interface]) w"
    by (simp only: run_all_append)
  have w2: "?w2 = attached api bridge interface w"
    by (simp add: attached_def run_all_append)
  have B: "?B ?w0 = ?after ?err ?w1"
    using t by (simp add: pwhen_def pbind_step [where m = "execute api (addif_cmd bridge interface)", OF e1]
        del: run_all.simps)
  have E: "ensure_bridge api bridge interface gateway filtering w = pbind ?B ?F ?w0"
    unfolding ensure_bridge_def
    using setup_accepted [OF acc, THEN pbind_step [of ?A w "()" ?w0 "\<lambda>_. pbind ?B ?F"]]
    by simp
  show ?thesis
  proof (cases "?err \<noteq> [] \<and> ?err \<noteq> already_member_msg interface bridge")
    case True
    then have "?guard ?err ?w1 =
        (Inl (if underscore_bound w
              then Exception (''Failed to add interface: '' @ ?err) else NameError ''_''), ?w1)"
      by (simp add: pwhen_def praise_def ub del: run_all.simps)
    then have "?after ?err ?w1 =
        (Inl (if underscore_bound w
              then Exception (''Failed to add interface: '' @ ?err) else NameError ''_''), ?w1)"
      by (simp add: pbind_def)
    with B have "?B ?w0 =
        (Inl (if underscore_bound w
              then Exception (''Failed to add interface: '' @ ?err) else NameError ''_''), ?w1)"
      by (simp del: run_all.simps)
    then have "pbind ?B ?F ?w0 =
        (Inl (if underscore_bound w
              then Exception (''Failed to add interface: '' @ ?err) else NameError ''_''), ?w1)"
      by (simp only: pbind_def prod.case sum.case)
    with E True w1 show ?thesis by (simp del: run_all.simps)
  next
    case False
    then have "?guard ?err ?w1 = (Inr (), ?w1)"
      by (auto simp: pwhen_def pret_def simp del: run_all.simps)
    then have "?after ?err ?w1 =
        pbind (execute api (iface_up_cmd interface)) (\<lambda>_. migrate api bridge interface) ?w1"
      using pbind_step [where m = "?guard ?err" and w = ?w1 and x = "()" and ?w1.0 = ?w1]
      by (simp del: run_all.simps)
    also have "\<dots> = migrate api bridge interface ?w2"
      by (simp add: pbind_step [where m = "execute api (iface_up_cmd interface)", OF e2]
            del: run_all.simps)
    finally have "?B ?w0 = migrate api bridge interface (attached api bridge interface w)"
      using B w2 by (simp del: run_all.simps)
    then have "pbind ?B ?F ?w0 =
        pbind (migrate api bridge interface) ?F (attached api bridge interface w)"
      by (simp only: pbind_def)
    with E False show ?thesis by (auto simp del: run_all.simps)
  qed
qed

lemma ensure_bridge_filtering_last:
  "ensure_bridge api bridge interface gateway filtering =
     pbind (ensure_bridge api bridge interface gateway False)
       (\<lambda>_. pwhen filtering (apply_filtering bridge gateway))"
  unfolding ensure_bridge_def
  by (simp add: pbind_assoc pbind_pret pwhen_False)

lemma frames_pwhen_at: "frames m \<Longrightarrow> frames (\<lambda>w. pwhen (c w) m w)"
  by (simp add: frames_def pwhen_def pret_def)

lemma frames_guard:
  "frames (\<lambda>w. pwhen b (if underscore_bound w then praise e1 else praise e2) w)"
  by (simp add: frames_def pwhen_def pret_def praise_def)

lemma frames_ensure_bridge: "frames (ensure_bridge api bridge interface gateway False)"
  unfolding ensure_bridge_def pwhen_False
  by (intro frames_pbind frames_pwhen_at frames_pwhen frames_case_prod frames_guard
        frames_execute frames_migrate frames_pret)

lemma ensure_bridge_unfiltered:
  "host (snd (ensure_bridge api bridge interface gateway filtering w)) =
     host (snd (ensure_bridge api bridge interface gateway False w)) \<and>
   trace (snd (ensure_bridge api bridge interface gateway filtering w)) =
     trace (snd (ensure_bridge api bridge interface gateway False w))"
proof -
  have "host (snd (pbind m (\<lambda>_. pwhen filtering (apply_filtering bridge gateway)) w)) =
          host (snd (m w)) \<and>
        trace (snd (pbind m (\<lambda>_. pwhen filtering (apply_filtering bridge gateway)) w)) =
          trace (snd (m w))" for m :: "(unit, 'a) prog"
    by (cases "m w")
       (auto simp: pbind_def pwhen_def pret_def apply_filtering_def
             split: sum.splits option.splits)
  from this [of "ensure_bridge api bridge interface gateway False"]
  show ?thesis by (simp only: ensure_bridge_filtering_last [symmetric])
qed

lemma ensure_bridge_first_command:
  assumes "\<not> device_exists api bridge w"
  shows "\<exists>more. issued (snd (ensure_bridge api bridge interface gateway False w)) =
           issued w @ addbr_cmd bridge # more"
proof -
  let ?K1 = "\<lambda>_::string \<times> string. pbind (execute api (setfd_cmd bridge))
           (\<lambda>_. pbind (execute api (stp_off_cmd bridge))
           (\<lambda>_. pbind (execute api (link_up_cmd bridge))
           (\<lambda>_. pret ())))"
  let ?A = "\<lambda>w. pwhen (\<not> device_exists api bridge w)
              (pbind (execute api (addbr_cmd bridge)) ?K1) w"
  let ?K = "\<lambda>_::unit. pbind (pwhen (truthy interface)
              (pbind (execute api (addif_cmd bridge interface))
              (\<lambda>(out, err).
                 pbind (\<lambda>w. pwhen (err \<noteq> [] \<and> err \<noteq> already_member_msg interface bridge)
                          (if underscore_bound w
                           then praise (Exception (''Failed to add interface: '' @ err))
                           else praise (NameError ''_'')) w)
              (\<lambda>_. pbind (execute api (iface_up_cmd interface))
              (\<lambda>_. migrate api bridge interface)))))
           (\<lambda>_. pret ())"
  have fK1: "frames (?K1 x)" for x
    by (intro frames_pbind frames_execute frames_pret)
  have fK: "frames (?K x)" for x
    by (intro frames_pbind frames_pwhen frames_case_prod frames_guard
        frames_execute frames_migrate frames_pret)
  have first: "\<exists>more. issued (snd (pbind (execute api c) f w)) = issued w @ c # more"
    if "\<And>x. frames (f x)" for c w and f :: "string \<times> string \<Rightarrow> (unit, 'a) prog"
  proof (cases "execute api c w")
    case (Pair r w1)
    then have w1: "issued w1 = issued w @ [c]"
      using issued_execute [of api c w] by simp
    show ?thesis
    proof (cases r)
      case (Inl e)
      with Pair w1 show ?thesis by (simp add: pbind_def)
    next
      case (Inr x)
      from framesD [OF that, of x w1] obtain more where
        "issued (snd (f x w1)) = issued w1 @ more" by blast
      with Pair Inr w1 show ?thesis by (simp add: pbind_def)
    qed
  qed
  have "\<exists>more. issued (snd (pbind (execute api (addbr_cmd bridge)) ?K1 w)) =
          issued w @ addbr_cmd bridge # more"
    by (rule first) (rule fK1)
  with assms obtain more1 where
    A: "issued (snd (?A w)) = issued w @ addbr_cmd bridge # more1"
    by (auto simp: pwhen_def)
  have "\<exists>more. issued (snd (pbind ?A ?K w)) = issued (snd (?A w)) @ more"
  proof (cases "?A w")
    case (Pair r w1)
    show ?thesis
    proof (cases r)
      case (Inl e)
      with Pair show ?thesis by (simp add: pbind_def)
    next
      case (Inr x)
      from framesD [OF fK, of w1] obtain more where
        "issued (snd (?K x w1)) = issued w1 @ more" by blast
      with Pair Inr show ?thesis by (simp add: pbind_def)
    qed
  qed
  with A have "\<exists>more. issued (snd (pbind ?A ?K w)) = issued w @ addbr_cmd bridge # more"
    by auto
  then show ?thesis unfolding ensure_bridge_def pwhen_False .
qed

text \<open>
  C6.  With an interface given and the bridge in place (it existed, or its four setup
  commands were accepted), what \<open>brctl addif\<close> prints on standard error decides.  When
  it is neither empty nor exactly the message that the interface is already a member of a
  bridge and cannot be enslaved to this one, \<open>ensure_bridge\<close> raises and \<open>brctl addif\<close>
  is the last command executed: the interface is not brought up, nothing is migrated, no
  filter is applied.  The exception is \<open>Exception('Failed to add interface: ...')\<close> where
  the name \<open>_\<close> resolves and \<open>NameError\<close> where it does not.  When the error output is
  empty or is that message, whatever the exit code, the call goes on: it brings the
  interface up and runs the migration and the filtering.
\<close>

theorem ensure_bridge_attach_error:
  assumes "truthy interface" and "accepted_all api (bridge_setup api bridge w) w"
  shows "(stderr_of api (addif_cmd bridge interface)
             (run_all api (bridge_setup api bridge w) w) \<noteq> [] \<and>
          stderr_of api (addif_cmd bridge interface)
             (run_all api (bridge_setup api bridge w) w) \<noteq> already_member_msg interface bridge
          \<longrightarrow>
          ensure_bridge api bridge interface gateway filtering w =
            (Inl (if underscore_bound w
                  then Exception (''Failed to add interface: '' @
                         stderr_of api (addif_cmd bridge interface)
                           (run_all api (bridge_setup api bridge w) w))
                  else NameError ''_''),
             run_all api (bridge_setup api bridge w @ [addif_cmd bridge interface]) w)) \<and>
         (stderr_of api (addif_cmd bridge interface)
             (run_all api (bridge_setup api bridge w) w) = [] \<or>
          stderr_of api (addif_cmd bridge interface)
             (run_all api (bridge_setup api bridge w) w) = already_member_msg interface bridge
          \<longrightarrow>
          ensure_bridge api bridge interface gateway filtering w =
            pbind (migrate api bridge interface)
              (\<lambda>_. pwhen filtering (apply_filtering bridge gateway))
              (attached api bridge interface w))"
  using ensure_bridge_truthy [OF assms, of gateway filtering]
  by (simp del: run_all.simps)

theorem ensure_bridge_attach_error_witness:
  "truthy (PyStr ''eth0'') \<and>
   accepted_all scripted (bridge_setup scripted ''br100'' (start refusing_host))
     (start refusing_host) \<and>
   ensure_bridge scripted ''br100'' (PyStr ''eth0'') True False (start refusing_host) =
     (Inl (NameError ''_''),
      run_all scripted (bridge_setup scripted ''br100'' (start refusing_host) @
                        [addif_cmd ''br100'' (PyStr ''eth0'')]) (start refusing_host)) \<and>
   fst (ensure_bridge scripted ''br100'' (PyStr ''eth0'') True False (start member_host)) =
     Inr () \<and>
   length (issued (snd (ensure_bridge scripted ''br100'' (PyStr ''eth0'') True False
     (start member_host)))) = 8"
proof -
  have t: "truthy (PyStr ''eth0'')" by simp
  have acc: "accepted_all scripted (bridge_setup scripted ''br100'' (start refusing_host))
     (start refusing_host)"
    by code_simp
  have err: "stderr_of scripted (addif_cmd ''br100'' (PyStr ''eth0''))
      (run_all scripted (bridge_setup scripted ''br100'' (start refusing_host))
         (start refusing_host)) = ''interface eth0 does not exist!\<newline>''"
    by code_simp
  have other: "''interface eth0 does not exist!\<newline>'' \<noteq>
      already_member_msg (PyStr ''eth0'') ''br100''"
    by code_simp
  have unbound: "\<not> underscore_bound (start refusing_host)"
    by (simp add: start_def)
  from ensure_bridge_attach_error [OF t acc, of True False] err other unbound
  have refused: "ensure_bridge scripted ''br100'' (PyStr ''eth0'') True False
      (start refusing_host) =
     (Inl (NameError ''_''),
      run_all scripted (bridge_setup scripted ''br100'' (start refusing_host) @
                        [addif_cmd ''br100'' (PyStr ''eth0'')]) (start refusing_host))"
    by (simp del: run_all.simps)
  have tolerated: "fst (ensure_bridge scripted ''br100'' (PyStr ''eth0'') True False
       (start member_host)) = Inr ()"
    by code_simp
  have went_on: "length (issued (snd (ensure_bridge scripted ''br100'' (PyStr ''eth0'')
       True False (start member_host)))) = 8"
    by code_simp
  from t acc refused tolerated went_on show ?thesis by (simp del: run_all.simps)
qed

text \<open>
  C9.  With \<open>_IPTABLES_MANAGER\<close> unset, \<open>ensure_bridge\<close> with \<open>filtering=True\<close> does
  everything the call with \<open>filtering=False\<close> does, in the same world, and then fails
  with \<open>AttributeError\<close> where that call would have returned; so it never returns.
  When the bridge was missing, \<open>brctl addbr\<close> has been executed before the failure.
  After \<open>configure\<close> with a manager, filtering adds no failure.
\<close>

theorem ensure_bridge_needs_configure:
  "(iptables_manager w = None \<longrightarrow>
      ensure_bridge api bridge interface gateway True w =
        (case ensure_bridge api bridge interface gateway False w of
           (Inl e, w') \<Rightarrow> (Inl e, w')
         | (Inr u, w') \<Rightarrow> (Inl (AttributeError ''ipv4''), w'))) \<and>
   (iptables_manager w = None \<and> \<not> device_exists api bridge w \<longrightarrow>
      (\<exists>more. issued (snd (ensure_bridge api bridge interface gateway True w)) =
                issued w @ addbr_cmd bridge # more)) \<and>
   (\<forall>m. fst (ensure_bridge api bridge interface gateway True (snd (configure (Some m) w))) =
          fst (ensure_bridge api bridge interface gateway False (snd (configure (Some m) w))))"
proof (intro conjI impI allI)
  assume none: "iptables_manager w = None"
  show "ensure_bridge api bridge interface gateway True w =
        (case ensure_bridge api bridge interface gateway False w of
           (Inl e, w') \<Rightarrow> (Inl e, w')
         | (Inr u, w') \<Rightarrow> (Inl (AttributeError ''ipv4''), w'))"
  proof (cases "ensure_bridge api bridge interface gateway False w")
    case (Pair r w')
    from framesD [OF frames_ensure_bridge, of api bridge interface gateway w] Pair none
    have "iptables_manager w' = None" by simp
    with Pair show ?thesis
      by (subst ensure_bridge_filtering_last)
         (simp add: pbind_def pwhen_def apply_filtering_def split: sum.splits)
  qed
next
  assume a: "iptables_manager w = None \<and> \<not> device_exists api bridge w"
  from ensure_bridge_first_command [of api bridge w interface gateway] a
  obtain more where "issued (snd (ensure_bridge api bridge interface gateway False w)) =
           issued w @ addbr_cmd bridge # more" by blast
  with ensure_bridge_unfiltered [of api bridge interface gateway True w]
  show "\<exists>more. issued (snd (ensure_bridge api bridge interface gateway True w)) =
                issued w @ addbr_cmd bridge # more"
    by (simp add: issued_def)
next
  fix m
  let ?w = "snd (configure (Some m) w)"
  have mgr: "iptables_manager ?w = Some m" by (simp add: configure_def)
  show "fst (ensure_bridge api bridge interface gateway True ?w) =
        fst (ensure_bridge api bridge interface gateway False ?w)"
  proof (cases "ensure_bridge api bridge interface gateway False ?w")
    case (Pair r w')
    from framesD [OF frames_ensure_bridge, of api bridge interface gateway ?w] Pair mgr
    have "iptables_manager w' = Some m" by simp
    with Pair show ?thesis
      by (subst ensure_bridge_filtering_last)
         (simp add: pbind_def pwhen_def apply_filtering_def split: sum.splits)
  qed
qed

theorem ensure_bridge_needs_configure_witness:
  "iptables_manager (start quiet_host) = None \<and>
   \<not> device_exists scripted ''br100'' (start quiet_host) \<and>
   fst (ensure_bridge scripted ''br100'' PyNone True True (start quiet_host)) =
     Inl (AttributeError ''ipv4'') \<and>
   issued (snd (ensure_bridge scripted ''br100'' PyNone True True (start quiet_host))) =
     [addbr_cmd ''br100'', setfd_cmd ''br100'', stp_off_cmd ''br100'', link_up_cmd ''br100''] \<and>
   fst (ensure_bridge scripted ''br100'' PyNone True True
          (snd (configure (Some example_manager) (start quiet_host)))) = Inr ()"
proof -
  have unset: "iptables_manager (start quiet_host) = None"
    by (simp add: start_def)
  have absent: "\<not> device_exists scripted ''br100'' (start quiet_host)"
    by code_simp
  have ok: "fst (ensure_bridge scripted ''br100'' PyNone True False (start quiet_host)) = Inr ()"
    by code_simp
  from ensure_bridge_needs_configure [of "start quiet_host" scripted "''br100''" PyNone True]
    unset
  have "ensure_bridge scripted ''br100'' PyNone True True (start quiet_host) =
        (case ensure_bridge scripted ''br100'' PyNone True False (start quiet_host) of
           (Inl e, w') \<Rightarrow> (Inl e, w')
         | (Inr u, w') \<Rightarrow> (Inl (AttributeError ''ipv4''), w'))"
    by blast
  with ok have fails: "fst (ensure_bridge scripted ''br100'' PyNone True True
      (start quiet_host)) = Inl (AttributeError ''ipv4'')"
    by (cases "ensure_bridge scripted ''br100'' PyNone True False (start quiet_host)") auto
  have done_before: "issued (snd (ensure_bridge scripted ''br100'' PyNone True True
      (start quiet_host))) =
     [addbr_cmd ''br100'', setfd_cmd ''br100'', stp_off_cmd ''br100'', link_up_cmd ''br100'']"
    by code_simp
  have configured: "fst (ensure_bridge scripted ''br100'' PyNone True True
          (snd (configure (Some example_manager) (start quiet_host)))) = Inr ()"
    by code_simp
  from unset absent fails done_before configured show ?thesis by simp
qed

text \<open>
  C3, as the code has it.  When \<open>ensure_bridge\<close> with an interface returns, the host
  and the executed commands are those of \<open>migrated\<close>: after the bridge setup, the attach
  and the link-up come the route listing, one \<open>ip route del\<close> for each listed route
  that has the token \<open>via\<close>, the address listing, then for each listed line that begins
  with \<open>inet\<close> an \<open>ip addr del\<close> on the device the line ends with followed by an
  \<open>ip addr add\<close> of the same parameters on the bridge, and last one \<open>ip route add\<close> for
  each deleted route.  Lines that begin with \<open>inet6\<close> are not among them.
\<close>

theorem ensure_bridge_migration_order:
  assumes t: "truthy interface"
    and ret: "ensure_bridge api bridge interface gateway filtering w = (Inr (), w')"
  shows "host w' = host (migrated api bridge interface w) \<and>
         trace w' = trace (migrated api bridge interface w) \<and>
         issued w' =
           issued w @ bridge_setup api bridge w @
           [addif_cmd bridge interface, iface_up_cmd interface] @
           route_show_cmd interface #
           map route_del_cmd (old_routes_at api interface (attached api bridge interface w)) @
           addr_show_cmd interface #
           addr_moves bridge
             (addrs_at api interface
                (routes_deleted api interface (attached api bridge interface w))) @
           map route_add_cmd (old_routes_at api interface (attached api bridge interface w))"
proof -
  from ret obtain u w1 where
    "pwhen (\<not> device_exists api bridge w)
           (pbind (execute api (addbr_cmd bridge))
           (\<lambda>_. pbind (execute api (setfd_cmd bridge))
           (\<lambda>_. pbind (execute api (stp_off_cmd bridge))
           (\<lambda>_. pbind (execute api (link_up_cmd bridge))
           (\<lambda>_. pret ()))))) w = (Inr u, w1)"
    unfolding ensure_bridge_def by (blast dest: pbind_Inr)
  then have acc: "accepted_all api (bridge_setup api bridge w) w"
    by (rule setup_Inr)
  let ?err = "stderr_of api (addif_cmd bridge interface)
                (run_all api (bridge_setup api bridge w) w)"
  have tolerated: "\<not> (?err \<noteq> [] \<and> ?err \<noteq> already_member_msg interface bridge)"
  proof
    assume "?err \<noteq> [] \<and> ?err \<noteq> already_member_msg interface bridge"
    with ensure_bridge_truthy [OF t acc, of gateway filtering]
    have "fst (ensure_bridge api bridge interface gateway filtering w) =
            Inl (if underscore_bound w
                 then Exception (''Failed to add interface: '' @ ?err) else NameError ''_'')"
      by (simp del: run_all.simps)
    with ret show False by simp
  qed
  with ensure_bridge_truthy [OF t acc, of gateway filtering] ret
  have "pbind (migrate api bridge interface)
          (\<lambda>_. pwhen filtering (apply_filtering bridge gateway))
          (attached api bridge interface w) = (Inr (), w')"
    by (simp del: run_all.simps)
  then obtain v w3 where
    m: "migrate api bridge interface (attached api bridge interface w) = (Inr v, w3)" and
    f: "pwhen filtering (apply_filtering bridge gateway) w3 = (Inr (), w')"
    by (blast dest: pbind_Inr)
  from migrate_Inr [OF m] have w3: "w3 = migrated api bridge interface w"
    by (simp add: migrated_def)
  from f have same: "host w' = host w3 \<and> trace w' = trace w3"
    using apply_filtering_world [of bridge gateway w3]
    by (cases filtering) (auto simp: pwhen_def pret_def)
  have "issued (migrated api bridge interface w) =
           issued w @ bridge_setup api bridge w @
           [addif_cmd bridge interface, iface_up_cmd interface] @
           route_show_cmd interface #
           map route_del_cmd (old_routes_at api interface (attached api bridge interface w)) @
           addr_show_cmd interface #
           addr_moves bridge
             (addrs_at api interface
                (routes_deleted api interface (attached api bridge interface w))) @
           map route_add_cmd (old_routes_at api interface (attached api bridge interface w))"
    by (simp add: migrated_def addrs_moved_def routes_deleted_def issued_run_all
          attached_def [of api bridge interface w, THEN arg_cong [of _ _ issued]]
          del: run_all.simps)
  with same w3 show ?thesis by (simp add: issued_def)
qed

theorem ensure_bridge_migration_order_witness:
  "truthy (PyStr ''eth0'') \<and>
   fst (ensure_bridge scripted ''br100'' (PyStr ''eth0'') True True
          (snd (configure (Some example_manager) (start dual_stack_host)))) = Inr () \<and>
   issued (snd (ensure_bridge scripted ''br100'' (PyStr ''eth0'') True True
          (snd (configure (Some example_manager) (start dual_stack_host))))) =
     [addbr_cmd ''br100'', setfd_cmd ''br100'', stp_off_cmd ''br100'', link_up_cmd ''br100'',
      addif_cmd ''br100'' (PyStr ''eth0''), iface_up_cmd (PyStr ''eth0''),
      route_show_cmd (PyStr ''eth0''),
      route_del_cmd [''10.0.1.0/24'', ''via'', ''10.0.0.1''],
      addr_show_cmd (PyStr ''eth0''),
      addr_cmd ''del'' [''10.0.0.5/24'', ''brd'', ''10.0.0.255'', ''scope'', ''global'']
        ''eth0'',
      addr_cmd ''add'' [''10.0.0.5/24'', ''brd'', ''10.0.0.255'', ''scope'', ''global'']
        ''br100'',
      route_add_cmd [''10.0.1.0/24'', ''via'', ''10.0.0.1'']]"
proof -
  let ?w = "snd (configure (Some example_manager) (start dual_stack_host)) :: script world"
  let ?run = "ensure_bridge scripted ''br100'' (PyStr ''eth0'') True True ?w"
  have t: "truthy (PyStr ''eth0'')" by simp
  have ok: "fst ?run = Inr ()" by code_simp
  then have ret: "?run = (Inr (), snd ?run)" by (simp add: prod_eq_iff)
  have fresh: "issued ?w = []"
    by (simp add: issued_def configure_def start_def)
  have made: "bridge_setup scripted ''br100'' ?w =
      [addbr_cmd ''br100'', setfd_cmd ''br100'', stp_off_cmd ''br100'', link_up_cmd ''br100'']"
    by code_simp
  have routes: "old_routes_at scripted (PyStr ''eth0'')
      (attached scripted ''br100'' (PyStr ''eth0'') ?w) = [[''10.0.1.0/24'', ''via'', ''10.0.0.1'']]"
    by code_simp
  have addrs: "addr_moves ''br100'' (addrs_at scripted (PyStr ''eth0'')
      (routes_deleted scripted (PyStr ''eth0'')
         (attached scripted ''br100'' (PyStr ''eth0'') ?w))) =
      [addr_cmd ''del'' [''10.0.0.5/24'', ''brd'', ''10.0.0.255'', ''scope'', ''global'']
         ''eth0'',
       addr_cmd ''add'' [''10.0.0.5/24'', ''brd'', ''10.0.0.255'', ''scope'', ''global'']
         ''br100'']"
    by code_simp
  from ensure_bridge_migration_order [OF t ret]
  have "issued (snd ?run) =
      issued ?w @ bridge_setup scripted ''br100'' ?w @
      [addif_cmd ''br100'' (PyStr ''eth0''), iface_up_cmd (PyStr ''eth0'')] @
      route_show_cmd (PyStr ''eth0'') #
      map route_del_cmd (old_routes_at scripted (PyStr ''eth0'')
        (attached scripted ''br100'' (PyStr ''eth0'') ?w)) @
      addr_show_cmd (PyStr ''eth0'') #
      addr_moves ''br100'' (addrs_at scripted (PyStr ''eth0'')
        (routes_deleted scripted (PyStr ''eth0'')
           (attached scripted ''br100'' (PyStr ''eth0'') ?w))) @
      map route_add_cmd (old_routes_at scripted (PyStr ''eth0'')
        (attached scripted ''br100'' (PyStr ''eth0'') ?w))"
    by blast
  then have "issued (snd ?run) =
     [addbr_cmd ''br100'', setfd_cmd ''br100'', stp_off_cmd ''br100'', link_up_cmd ''br100'',
      addif_cmd ''br100'' (PyStr ''eth0''), iface_up_cmd (PyStr ''eth0''),
      route_show_cmd (PyStr ''eth0''),
      route_del_cmd [''10.0.1.0/24'', ''via'', ''10.0.0.1''],
      addr_show_cmd (PyStr ''eth0''),
      addr_cmd ''del'' [''10.0.0.5/24'', ''brd'', ''10.0.0.255'', ''scope'', ''global'']
        ''eth0'',
      addr_cmd ''add'' [''10.0.0.5/24'', ''brd'', ''10.0.0.255'', ''scope'', ''global'']
        ''br100'',
      route_add_cmd [''10.0.1.0/24'', ''via'', ''10.0.0.1'']]"
    by (simp add: fresh made routes addrs)
  with t ok show ?thesis by blast
qed

text \<open>
  An IPv6 address stays behind.  On the host of the example the interface carries
  \<open>2001:db8::5/64\<close> with global scope, the call returns, and the commands it executed
  move \<open>10.0.0.5/24\<close> only: none of them names the IPv6 address.
\<close>

theorem ensure_bridge_leaves_ipv6:
  "listed (addr_listing dual_stack_host) ! 2 =
     [''inet6'', ''2001:db8::5/64'', ''scope'', ''global''] \<and>
   fst (ensure_bridge scripted ''br100'' (PyStr ''eth0'') True False (start dual_stack_host)) =
     Inr () \<and>
   map (map py_str \<circ> argv)
     (issued (snd (ensure_bridge scripted ''br100'' (PyStr ''eth0'') True False
        (start dual_stack_host)))) =
     [[''brctl'', ''addbr'', ''br100''],
      [''brctl'', ''setfd'', ''br100'', ''0''],
      [''brctl'', ''stp'', ''br100'', ''off''],
      [''ip'', ''link'', ''set'', ''br100'', ''up''],
      [''brctl'', ''addif'', ''br100'', ''eth0''],
      [''ip'', ''link'', ''set'', ''eth0'', ''up''],
      [''ip'', ''route'', ''show'', ''dev'', ''eth0''],
      [''ip'', ''route'', ''del'', ''10.0.1.0/24'', ''via'', ''10.0.0.1''],
      [''ip'', ''addr'', ''show'', ''dev'', ''eth0'', ''scope'', ''global''],
      [''ip'', ''addr'', ''del'', ''10.0.0.5/24'', ''brd'', ''10.0.0.255'', ''scope'',
       ''global'', ''dev'', ''eth0''],
      [''ip'', ''addr'', ''add'', ''10.0.0.5/24'', ''brd'', ''10.0.0.255'', ''scope'',
       ''global'', ''dev'', ''br100''],
      [''ip'', ''route'', ''add'', ''10.0.1.0/24'', ''via'', ''10.0.0.1'']]"
  by code_simp

section \<open>The hybrid backend\<close>

text \<open>
  C7.  Both names of \<open>get_veth_pair_names\<close> have at most 14 characters, the first
  begins with \<open>qvb\<close> and the second with \<open>qvo\<close>, whatever the VIF id is (also the
  empty one, which gives the two prefixes themselves).
\<close>

theorem veth_pair_names_bounded:
  "length (fst (get_veth_pair_names v)) \<le> 14 \<and>
   length (snd (get_veth_pair_names v)) \<le> 14 \<and>
   take 3 (fst (get_veth_pair_names v)) = ''qvb'' \<and>
   take 3 (snd (get_veth_pair_names v)) = ''qvo''"
  by (simp add: get_veth_pair_names_def NIC_NAME_LEN_def)

text \<open>
  C4.  A VIF without a port profile makes \<open>plug\<close> and \<open>unplug\<close> of the hybrid backend
  raise \<open>MissingPortProfile\<close>, and one whose profile is not the Open vSwitch variant
  makes them raise \<open>WrongPortProfile\<close> with the profile's class name; in both cases the
  world is returned as it was: no command has been executed and the host has not changed.
\<close>

theorem hybrid_port_profile_checked_first:
  "(port_profile v = None \<longrightarrow>
      OvsHybridPlugin_plug api linux_net cfg v inst w = (Inl MissingPortProfile, w) \<and>
      OvsHybridPlugin_unplug api linux_net cfg v inst w = (Inl MissingPortProfile, w)) \<and>
   (\<forall>cls. port_profile v = Some (OtherPortProfile cls) \<longrightarrow>
      OvsHybridPlugin_plug api linux_net cfg v inst w = (Inl (WrongPortProfile cls), w) \<and>
      OvsHybridPlugin_unplug api linux_net cfg v inst w = (Inl (WrongPortProfile cls), w))"
  by (simp add: OvsHybridPlugin_plug_def OvsHybridPlugin_unplug_def praise_def)

theorem hybrid_port_profile_checked_first_witness:
  "port_profile example_vif = None \<and>
   OvsHybridPlugin_plug scripted example_linux_net example_config example_vif
       example_instance (start quiet_host) = (Inl MissingPortProfile, start quiet_host) \<and>
   OvsHybridPlugin_unplug scripted example_linux_net example_config example_vif
       example_instance (start quiet_host) = (Inl MissingPortProfile, start quiet_host) \<and>
   OvsHybridPlugin_plug scripted example_linux_net example_config
       (example_vif\<lparr>port_profile := Some (OtherPortProfile ''VIFPortProfileBase'')\<rparr>)
       example_instance (start quiet_host) =
     (Inl (WrongPortProfile ''VIFPortProfileBase''), start quiet_host) \<and>
   OvsHybridPlugin_unplug scripted example_linux_net example_config
       (example_vif\<lparr>port_profile := Some (OtherPortProfile ''VIFPortProfileBase'')\<rparr>)
       example_instance (start quiet_host) =
     (Inl (WrongPortProfile ''VIFPortProfileBase''), start quiet_host)"
  using hybrid_port_profile_checked_first [of example_vif scripted example_linux_net
      example_config example_instance "start quiet_host"]
    hybrid_port_profile_checked_first
      [of "example_vif\<lparr>port_profile := Some (OtherPortProfile ''VIFPortProfileBase'')\<rparr>"
          scripted example_linux_net example_config example_instance "start quiet_host"]
  by (simp add: example_vif_def)

lemma hybrid_plug_Inr:
  assumes p: "port_profile v = Some (VIFPortProfileOpenVSwitch iface_id)"
    and absent: "\<not> ovs_device_exists linux_net (bridge_name v) w"
    and ret: "OvsHybridPlugin_plug api linux_net cfg v inst w = (Inr (), w')"
  shows "if ovs_device_exists linux_net (snd (get_veth_pair_names v))
              (hybrid_bridge_created api (bridge_name v) w)
         then w' = hybrid_bridge_created api (bridge_name v) w
         else (\<exists>w6. create_veth_pair linux_net (fst (get_veth_pair_names v))
                       (snd (get_veth_pair_names v)) (network_device_mtu cfg)
                       (hybrid_bridge_created api (bridge_name v) w) = (Inr (), w6) \<and>
                    create_ovs_vif_port linux_net (network_bridge (vif_network v))
                       (snd (get_veth_pair_names v)) iface_id (address v) (uuid inst)
                       (network_device_mtu cfg) (ovs_vsctl_timeout cfg)
                       (run_all api [link_up_cmd (bridge_name v),
                                     plug_addif_cmd (bridge_name v)
                                       (fst (get_veth_pair_names v))] w6) = (Inr (), w'))"
proof -
  obtain v1 v2 where names: "get_veth_pair_names v = (v1, v2)"
    by (cases "get_veth_pair_names v")
  let ?b = "bridge_name v"
  let ?chain = "pbind (execute api (addbr_cmd ?b))
                 (\<lambda>_. pbind (execute api (setfd_cmd ?b))
                 (\<lambda>_. pbind (execute api (stp_off_cmd ?b))
                 (\<lambda>_. pbind (execute api (snooping_off_cmd ?b))
                 (\<lambda>_. (\<lambda>w. pwhen (path_exists api (disv6 ?b) (host w))
                          (pbind (execute api (tee_cmd (disv6 ?b) ''1''))
                             (\<lambda>_. pret ())) w)))))"
  let ?veth = "pbind (create_veth_pair linux_net v1 v2 (network_device_mtu cfg))
                 (\<lambda>_. pbind (execute api (link_up_cmd ?b))
                 (\<lambda>_. pbind (execute api (plug_addif_cmd ?b v1))
                 (\<lambda>_. create_ovs_vif_port linux_net (network_bridge (vif_network v)) v2
                         iface_id (address v) (uuid inst) (network_device_mtu cfg)
                         (ovs_vsctl_timeout cfg))))"
  from ret p names have
    "pbind (\<lambda>w. pwhen (\<not> ovs_device_exists linux_net ?b w) ?chain w)
       (\<lambda>_. (\<lambda>w. pwhen (\<not> ovs_device_exists linux_net v2 w) ?veth w)) w = (Inr (), w')"
    unfolding OvsHybridPlugin_plug_def by simp
  then obtain u w5 where
    "pwhen (\<not> ovs_device_exists linux_net ?b w) ?chain w = (Inr u, w5)" and
    second: "pwhen (\<not> ovs_device_exists linux_net v2 w5) ?veth w5 = (Inr (), w')"
    by (blast dest: pbind_Inr)
  with absent have first: "?chain w = (Inr u, w5)"
    by (simp add: pwhen_def)
  from first have w5: "w5 = hybrid_bridge_created api ?b w"
    by (auto simp: pbind_Inr_iff execute_Inr_iff pwhen_def pret_def hybrid_bridge_created_def
             split: if_splits)
  show ?thesis
  proof (cases "ovs_device_exists linux_net v2 w5")
    case True
    with second w5 names show ?thesis by (simp add: pwhen_def pret_def)
  next
    case False
    with second obtain w6 where
      "create_veth_pair linux_net v1 v2 (network_device_mtu cfg) w5 = (Inr (), w6)"
      "create_ovs_vif_port linux_net (network_bridge (vif_network v)) v2
         iface_id (address v) (uuid inst) (network_device_mtu cfg) (ovs_vsctl_timeout cfg)
         (run_all api [link_up_cmd ?b, plug_addif_cmd ?b v1] w6) = (Inr (), w')"
      by (auto simp: pwhen_def pbind_Inr_iff execute_Inr_iff)
    with False w5 names show ?thesis by auto
  qed
qed

text \<open>
  C1, as the code has it.  When the bridge of the VIF is missing and \<open>plug\<close> returns,
  its first block has executed \<open>brctl addbr\<close>, \<open>brctl setfd ... 0\<close>,
  \<open>brctl stp ... off\<close>, the write of \<open>0\<close> to \<open>multicast_snooping\<close> and, where the
  path of \<open>disable_ipv6\<close> exists at that moment, the write of \<open>1\<close> to it, and nothing
  else: the bridge is not brought up there.  If the OVS side of the veth pair exists
  after that, the call is over.  If it does not, the veth pair is created, and only then
  come \<open>ip link set ... up\<close> for the bridge, \<open>brctl addif\<close> and the OVS port.
\<close>

theorem hybrid_plug_missing_bridge:
  assumes "port_profile v = Some (VIFPortProfileOpenVSwitch iface_id)"
    and "\<not> ovs_device_exists linux_net (bridge_name v) w"
    and "OvsHybridPlugin_plug api linux_net cfg v inst w = (Inr (), w')"
  shows "issued (hybrid_bridge_created api (bridge_name v) w) =
           issued w @
           [addbr_cmd (bridge_name v), setfd_cmd (bridge_name v), stp_off_cmd (bridge_name v),
            snooping_off_cmd (bridge_name v)] @
           (if path_exists api (disv6 (bridge_name v))
                 (host (run_all api [addbr_cmd (bridge_name v), setfd_cmd (bridge_name v),
                                     stp_off_cmd (bridge_name v),
                                     snooping_off_cmd (bridge_name v)] w))
            then [tee_cmd (disv6 (bridge_name v)) ''1''] else []) \<and>
         (if ovs_device_exists linux_net (snd (get_veth_pair_names v))
              (hybrid_bridge_created api (bridge_name v) w)
          then w' = hybrid_bridge_created api (bridge_name v) w
          else (\<exists>w6. create_veth_pair linux_net (fst (get_veth_pair_names v))
                       (snd (get_veth_pair_names v)) (network_device_mtu cfg)
                       (hybrid_bridge_created api (bridge_name v) w) = (Inr (), w6) \<and>
                    create_ovs_vif_port linux_net (network_bridge (vif_network v))
                       (snd (get_veth_pair_names v)) iface_id (address v) (uuid inst)
                       (network_device_mtu cfg) (ovs_vsctl_timeout cfg)
                       (run_all api [link_up_cmd (bridge_name v),
                                     plug_addif_cmd (bridge_name v)
                                       (fst (get_veth_pair_names v))] w6) = (Inr (), w')))"
proof
  show "issued (hybrid_bridge_created api (bridge_name v) w) =
           issued w @
           [addbr_cmd (bridge_name v), setfd_cmd (bridge_name v), stp_off_cmd (bridge_name v),
            snooping_off_cmd (bridge_name v)] @
           (if path_exists api (disv6 (bridge_name v))
                 (host (run_all api [addbr_cmd (bridge_name v), setfd_cmd (bridge_name v),
                                     stp_off_cmd (bridge_name v),
                                     snooping_off_cmd (bridge_name v)] w))
            then [tee_cmd (disv6 (bridge_name v)) ''1''] else [])"
    by (simp add: hybrid_bridge_created_def issued_run_all del: run_all.simps)
qed (rule hybrid_plug_Inr [OF assms])

theorem hybrid_plug_missing_bridge_witness:
  "port_profile example_ovs_vif =
     Some (VIFPortProfileOpenVSwitch ''b679325f-ca89-4ee0-a8be-6db1409b69ea'') \<and>
   \<not> ovs_device_exists example_linux_net (bridge_name example_ovs_vif) (start quiet_host) \<and>
   fst (OvsHybridPlugin_plug scripted example_linux_net example_config example_ovs_vif
          example_instance (start quiet_host)) = Inr () \<and>
   issued (hybrid_bridge_created scripted (bridge_name example_ovs_vif) (start quiet_host)) =
     [addbr_cmd ''qbrb679325f-ca'', setfd_cmd ''qbrb679325f-ca'',
      stp_off_cmd ''qbrb679325f-ca'', snooping_off_cmd ''qbrb679325f-ca''] \<and>
   map (map py_str \<circ> argv)
     (issued (snd (OvsHybridPlugin_plug scripted example_linux_net example_config
        example_ovs_vif example_instance (start quiet_host)))) =
     [[''brctl'', ''addbr'', ''qbrb679325f-ca''],
      [''brctl'', ''setfd'', ''qbrb679325f-ca'', ''0''],
      [''brctl'', ''stp'', ''qbrb679325f-ca'', ''off''],
      [''tee'', ''/sys/class/net/qbrb679325f-ca/bridge/multicast_snooping''],
      [''ip'', ''link'', ''add'', ''qvbb679325f-ca'', ''type'', ''veth'', ''peer'', ''name'',
       ''qvob679325f-ca''],
      [''ip'', ''link'', ''set'', ''qbrb679325f-ca'', ''up''],
      [''brctl'', ''addif'', ''qbrb679325f-ca'', ''qvbb679325f-ca''],
      [''ovs-vsctl'', ''add-port'', ''br-int'', ''qvob679325f-ca'']]"
proof -
  let ?run = "OvsHybridPlugin_plug scripted example_linux_net example_config example_ovs_vif
                example_instance (start quiet_host)"
  have p: "port_profile example_ovs_vif =
     Some (VIFPortProfileOpenVSwitch ''b679325f-ca89-4ee0-a8be-6db1409b69ea'')"
    by (simp add: example_ovs_vif_def)
  have absent: "\<not> ovs_device_exists example_linux_net (bridge_name example_ovs_vif)
     (start quiet_host)"
    by code_simp
  have ok: "fst ?run = Inr ()" by code_simp
  then have ret: "?run = (Inr (), snd ?run)" by (simp add: prod_eq_iff)
  have b: "bridge_name example_ovs_vif = ''qbrb679325f-ca''"
    by (simp add: example_ovs_vif_def example_vif_def)
  have unsupported: "\<not> path_exists scripted (disv6 ''qbrb679325f-ca'')
      (host (run_all scripted [addbr_cmd ''qbrb679325f-ca'', setfd_cmd ''qbrb679325f-ca'',
         stp_off_cmd ''qbrb679325f-ca'', snooping_off_cmd ''qbrb679325f-ca'']
         (start quiet_host)))"
    by code_simp
  have fresh: "issued (start quiet_host) = []"
    by (simp add: issued_def start_def)
  from hybrid_plug_missing_bridge [OF p absent ret] unsupported
  have first: "issued (hybrid_bridge_created scripted (bridge_name example_ovs_vif)
      (start quiet_host)) =
     [addbr_cmd ''qbrb679325f-ca'', setfd_cmd ''qbrb679325f-ca'',
      stp_off_cmd ''qbrb679325f-ca'', snooping_off_cmd ''qbrb679325f-ca'']"
    by (simp add: b fresh del: run_all.simps)
  have all: "map (map py_str \<circ> argv) (issued (snd ?run)) =
     [[''brctl'', ''addbr'', ''qbrb679325f-ca''],
      [''brctl'', ''setfd'', ''qbrb679325f-ca'', ''0''],
      [''brctl'', ''stp'', ''qbrb679325f-ca'', ''off''],
      [''tee'', ''/sys/class/net/qbrb679325f-ca/bridge/multicast_snooping''],
      [''ip'', ''link'', ''add'', ''qvbb679325f-ca'', ''type'', ''veth'', ''peer'', ''name'',
       ''qvob679325f-ca''],
      [''ip'', ''link'', ''set'', ''qbrb679325f-ca'', ''up''],
      [''brctl'', ''addif'', ''qbrb679325f-ca'', ''qvbb679325f-ca''],
      [''ovs-vsctl'', ''add-port'', ''br-int'', ''qvob679325f-ca'']]"
    by code_simp
  from p absent ok first all show ?thesis by blast
qed

text \<open>
  The bridge that is created and left down: the OVS side of the veth pair exists, the
  bridge does not; \<open>plug\<close> returns after the four commands that create the bridge, and
  the command that brings it up is not among them.
\<close>

theorem hybrid_plug_bridge_left_down:
  "\<not> device_exists scripted (bridge_name example_ovs_vif) (start veth_left_host) \<and>
   fst (OvsHybridPlugin_plug scripted example_linux_net example_config example_ovs_vif
          example_instance (start veth_left_host)) = Inr () \<and>
   issued (snd (OvsHybridPlugin_plug scripted example_linux_net example_config
          example_ovs_vif example_instance (start veth_left_host))) =
     [addbr_cmd ''qbrb679325f-ca'', setfd_cmd ''qbrb679325f-ca'',
      stp_off_cmd ''qbrb679325f-ca'', snooping_off_cmd ''qbrb679325f-ca''] \<and>
   link_up_cmd ''qbrb679325f-ca'' \<notin> set (issued (snd (OvsHybridPlugin_plug scripted
          example_linux_net example_config example_ovs_vif example_instance
          (start veth_left_host))))"
  by code_simp

section \<open>The dispatcher\<close>

text \<open>
  C2.  \<open>plug\<close> on a module whose \<open>_EXT_MANAGER\<close> is still \<open>None\<close> raises
  \<open>LibraryNotInitialized\<close>; with a manager that has no extension under the VIF's backend
  name it raises \<open>NoMatchingPlugin\<close> carrying that name; and when the backend's \<open>plug\<close>
  raises an \<open>Exception\<close> \<open>e\<close>, the caller gets \<open>PlugException\<close> carrying the VIF and \<open>e\<close>.
  In the first two cases nothing has been executed.
\<close>

theorem plug_error_taxonomy:
  "(EXT_MANAGER s = None \<longrightarrow> plug s v inst w = (Inl LibraryNotInitialized, w)) \<and>
   (\<forall>mgr. EXT_MANAGER s = Some mgr \<and> by_name mgr (vif_plugin v) = None \<longrightarrow>
      plug s v inst w = (Inl (NoMatchingPlugin (vif_plugin v)), w)) \<and>
   (\<forall>mgr ext p e w'.
      EXT_MANAGER s = Some mgr \<and> by_name mgr (vif_plugin v) = Some ext \<and>
      ext_obj ext = Some p \<and> obj_plug p v inst w = (Inl e, w') \<and> is_Exception e \<longrightarrow>
      plug s v inst w = (Inl (PlugException v e), w'))"
  by (auto simp add: plug_def praise_def)

lemma example_initialized:
  "initialize False example_found os_vif_imported =
     (Inr (),
      \<lparr>EXT_MANAGER = Some
         \<lparr>names = [''ovs_hybrid''],
          by_name = [''ovs_hybrid'' \<mapsto>
            \<lparr>ext_load = \<lambda>plugin_name. Inr OvsHybridPlugin, ext_obj = Some OvsHybridPlugin\<rparr>]\<rparr>,
       discoveries = 1, loads = [''ovs_hybrid''], register_all_calls = 1\<rparr>)"
  by (simp add: initialize_def example_found_def os_vif_imported_def ExtensionManager_def)

theorem plug_error_taxonomy_witness:
  "EXT_MANAGER (os_vif_imported :: script os_vif) = None \<and>
   plug os_vif_imported example_vif example_instance (start quiet_host) =
     (Inl LibraryNotInitialized, start quiet_host) \<and>
   fst (initialize False example_found os_vif_imported) = Inr () \<and>
   plug (snd (initialize False example_found os_vif_imported))
       (example_vif\<lparr>vif_plugin := ''midonet''\<rparr>) example_instance (start quiet_host) =
     (Inl (NoMatchingPlugin ''midonet''), start quiet_host) \<and>
   is_Exception MissingPortProfile \<and>
   plug (snd (initialize False example_found os_vif_imported))
       example_vif example_instance (start quiet_host) =
     (Inl (PlugException example_vif MissingPortProfile), start quiet_host)"
proof -
  have backend: "obj_plug OvsHybridPlugin example_vif example_instance (start quiet_host) =
      (Inl MissingPortProfile, start quiet_host)"
    by (simp add: OvsHybridPlugin_def OvsHybridPlugin_plug_def example_vif_def praise_def)
  have name: "vif_plugin example_vif = ''ovs_hybrid''"
    by (simp add: example_vif_def)
  show ?thesis
    using plug_error_taxonomy [of "os_vif_imported :: script os_vif" example_vif
        example_instance "start quiet_host"]
      plug_error_taxonomy [of "snd (initialize False example_found os_vif_imported)"
        "example_vif\<lparr>vif_plugin := ''midonet''\<rparr>" example_instance "start quiet_host"]
      plug_error_taxonomy [of "snd (initialize False example_found os_vif_imported)"
        example_vif example_instance "start quiet_host"]
    by (simp add: example_initialized backend name) (simp add: os_vif_imported_def)
qed

lemma load_plugins_ok:
  assumes "load_plugins ns s = (Inr (), s')" and "EXT_MANAGER s = Some mgr"
  shows "\<exists>mgr'. EXT_MANAGER s' = Some mgr' \<and> names mgr' = names mgr \<and>
           discoveries s' = discoveries s \<and> register_all_calls s' = register_all_calls s \<and>
           loads s' = loads s @ ns \<and>
           (\<forall>n. by_name mgr' n =
                  (if n \<in> set ns
                   then map_option (\<lambda>ext. ext\<lparr>ext_obj := Some (projr (ext_load ext n))\<rparr>)
                          (by_name mgr n)
                   else by_name mgr n)) \<and>
           (\<forall>n \<in> set ns. \<exists>ext. by_name mgr n = Some ext \<and> (\<exists>obj. ext_load ext n = Inr obj))"
  using assms
proof (induction ns arbitrary: s mgr)
  case Nil
  then show ?case by simp
next
  case (Cons n rest)
  from Cons.prems obtain ext obj where
    ext: "by_name mgr n = Some ext" and obj: "ext_load ext n = Inr obj" and
    rec: "load_plugins rest
            (s\<lparr>EXT_MANAGER := Some (mgr\<lparr>by_name := (by_name mgr)(n \<mapsto> ext\<lparr>ext_obj := Some obj\<rparr>)\<rparr>),
               loads := loads s @ [n]\<rparr>) = (Inr (), s')"
    by (auto split: option.splits sum.splits)
  from Cons.IH [OF rec] obtain mgr' where
    m: "EXT_MANAGER s' = Some mgr'" "names mgr' = names mgr"
       "discoveries s' = discoveries s" "register_all_calls s' = register_all_calls s"
       "loads s' = loads s @ n # rest" and
    b: "\<forall>k. by_name mgr' k =
          (if k \<in> set rest
           then map_option (\<lambda>ext. ext\<lparr>ext_obj := Some (projr (ext_load ext k))\<rparr>)
                  (((by_name mgr)(n \<mapsto> ext\<lparr>ext_obj := Some obj\<rparr>)) k)
           else ((by_name mgr)(n \<mapsto> ext\<lparr>ext_obj := Some obj\<rparr>)) k)" and
    l: "\<forall>k \<in> set rest. \<exists>e. ((by_name mgr)(n \<mapsto> ext\<lparr>ext_obj := Some obj\<rparr>)) k = Some e \<and>
          (\<exists>obj. ext_load e k = Inr obj)"
    by auto
  have "\<forall>k. by_name mgr' k =
          (if k \<in> set (n # rest)
           then map_option (\<lambda>ext. ext\<lparr>ext_obj := Some (projr (ext_load ext k))\<rparr>) (by_name mgr k)
           else by_name mgr k)"
    using b ext obj by auto
  moreover have "\<forall>k \<in> set (n # rest). \<exists>e. by_name mgr k = Some e \<and> (\<exists>obj. ext_load e k = Inr obj)"
    using l ext obj by (auto split: if_splits)
  ultimately show ?case using m by simp
qed

lemma by_name_ExtensionManager:
  "by_name (ExtensionManager found) n =
     map_option (\<lambda>cls. \<lparr>ext_load = cls, ext_obj = None\<rparr>) (map_of (rev found) n)"
  by (simp add: ExtensionManager_def rev_map map_of_map)

lemma initialize_keeps:
  assumes "initialize reset found s = (Inr (), s1)"
  shows "EXT_MANAGER s1 \<noteq> None"
proof (cases "reset \<or> EXT_MANAGER s = None")
  case True
  with assms obtain s2 where
    l: "load_plugins (names (ExtensionManager found))
          (s\<lparr>EXT_MANAGER := Some (ExtensionManager found), discoveries := Suc (discoveries s)\<rparr>) =
        (Inr (), s2)" and s1: "s1 = s2\<lparr>register_all_calls := Suc (register_all_calls s2)\<rparr>"
    by (auto simp: initialize_def Let_def split: prod.splits sum.splits)
  from load_plugins_ok [OF l] s1 show ?thesis by auto
next
  case False
  with assms show ?thesis by (auto simp: initialize_def)
qed

lemma initialize_reset:
  assumes "initialize True found s = (Inr (), s2)"
  shows "(\<exists>mgr. EXT_MANAGER s2 = Some mgr \<and> names mgr = map fst found \<and>
            (\<forall>n. n \<notin> fst ` set found \<longrightarrow> by_name mgr n = None) \<and>
            (\<forall>n \<in> fst ` set found. \<exists>cls obj.
                map_of (rev found) n = Some cls \<and> cls n = Inr obj \<and>
                by_name mgr n = Some \<lparr>ext_load = cls, ext_obj = Some obj\<rparr>)) \<and>
         discoveries s2 = Suc (discoveries s) \<and> loads s2 = loads s @ map fst found \<and>
         register_all_calls s2 = Suc (register_all_calls s)"
proof -
  from assms obtain s' where
    l: "load_plugins (names (ExtensionManager found))
          (s\<lparr>EXT_MANAGER := Some (ExtensionManager found), discoveries := Suc (discoveries s)\<rparr>) =
        (Inr (), s')" and s2: "s2 = s'\<lparr>register_all_calls := Suc (register_all_calls s')\<rparr>"
    by (auto simp: initialize_def Let_def split: prod.splits sum.splits)
  have nm: "names (ExtensionManager found) = map fst found"
    by (simp add: ExtensionManager_def)
  from load_plugins_ok [OF l, of "ExtensionManager found"] obtain mgr' where
    m: "EXT_MANAGER s' = Some mgr'" "names mgr' = map fst found"
       "discoveries s' = Suc (discoveries s)" "register_all_calls s' = register_all_calls s"
       "loads s' = loads s @ map fst found" and
    b: "\<forall>n. by_name mgr' n =
          (if n \<in> fst ` set found
           then map_option (\<lambda>ext. ext\<lparr>ext_obj := Some (projr (ext_load ext n))\<rparr>)
                  (by_name (ExtensionManager found) n)
           else by_name (ExtensionManager found) n)" and
    l: "\<forall>n \<in> fst ` set found. \<exists>e. by_name (ExtensionManager found) n = Some e \<and>
          (\<exists>obj. ext_load e n = Inr obj)"
    by (auto simp: nm)
  have absent: "\<forall>n. n \<notin> fst ` set found \<longrightarrow> by_name mgr' n = None"
    using b by (simp add: by_name_ExtensionManager map_of_eq_None_iff)
  have present: "\<forall>n \<in> fst ` set found. \<exists>cls obj.
                map_of (rev found) n = Some cls \<and> cls n = Inr obj \<and>
                by_name mgr' n = Some \<lparr>ext_load = cls, ext_obj = Some obj\<rparr>"
  proof
    fix n assume n: "n \<in> fst ` set found"
    with l obtain e where e: "by_name (ExtensionManager found) n = Some e" "(\<exists>obj. ext_load e n = Inr obj)"
      by blast
    then obtain cls where cls: "map_of (rev found) n = Some cls" "e = \<lparr>ext_load = cls, ext_obj = None\<rparr>"
      by (auto simp: by_name_ExtensionManager)
    with e obtain obj where obj: "cls n = Inr obj" by auto
    from b n e cls obj have "by_name mgr' n = Some \<lparr>ext_load = cls, ext_obj = Some obj\<rparr>"
      by simp
    with cls obj show "\<exists>cls obj. map_of (rev found) n = Some cls \<and> cls n = Inr obj \<and>
                by_name mgr' n = Some \<lparr>ext_load = cls, ext_obj = Some obj\<rparr>" by blast
  qed
  from m absent present s2 show ?thesis by simp
qed

text \<open>
  C8.  After a call of \<open>initialize\<close> that returned, a call with \<open>reset=False\<close> returns
  the state it was given: no discovery, no \<open>load\<close>, no \<open>register_all\<close>, whatever is
  installed by then.  A call with \<open>reset=True\<close> that returns has built the registry from
  what it discovered alone: the names are the discovered ones, a name that was not
  discovered is unbound whatever was bound before, every discovered name is bound to the
  class discovered last under it together with the object its \<open>load\<close> returned, and
  discovery, every \<open>load\<close> and \<open>register_all\<close> have run once more.
\<close>

theorem initialize_repeat:
  "(\<forall>s1. initialize reset found s = (Inr (), s1) \<longrightarrow>
          initialize False found' s1 = (Inr (), s1)) \<and>
   (\<forall>s2. initialize True found s = (Inr (), s2) \<longrightarrow>
      (\<exists>mgr. EXT_MANAGER s2 = Some mgr \<and> names mgr = map fst found \<and>
            (\<forall>n. n \<notin> fst ` set found \<longrightarrow> by_name mgr n = None) \<and>
            (\<forall>n \<in> fst ` set found. \<exists>cls obj.
                map_of (rev found) n = Some cls \<and> cls n = Inr obj \<and>
                by_name mgr n = Some \<lparr>ext_load = cls, ext_obj = Some obj\<rparr>)) \<and>
      discoveries s2 = Suc (discoveries s) \<and> loads s2 = loads s @ map fst found \<and>
      register_all_calls s2 = Suc (register_all_calls s))"
proof (intro conjI allI impI)
  fix s1 assume "initialize reset found s = (Inr (), s1)"
  from initialize_keeps [OF this]
  show "initialize False found' s1 = (Inr (), s1)" by (auto simp: initialize_def)
next
  fix s2 assume a: "initialize True found s = (Inr (), s2)"
  from initialize_reset [OF a]
  show "\<exists>mgr. EXT_MANAGER s2 = Some mgr \<and> names mgr = map fst found \<and>
            (\<forall>n. n \<notin> fst ` set found \<longrightarrow> by_name mgr n = None) \<and>
            (\<forall>n \<in> fst ` set found. \<exists>cls obj.
                map_of (rev found) n = Some cls \<and> cls n = Inr obj \<and>
                by_name mgr n = Some \<lparr>ext_load = cls, ext_obj = Some obj\<rparr>)"
    and "discoveries s2 = Suc (discoveries s)" and "loads s2 = loads s @ map fst found"
    and "register_all_calls s2 = Suc (register_all_calls s)"
    by blast+
qed

theorem initialize_repeat_witness:
  "initialize False example_found os_vif_imported =
     (Inr (), snd (initialize False example_found os_vif_imported)) \<and>
   initialize False [] (snd (initialize False example_found os_vif_imported)) =
     (Inr (), snd (initialize False example_found os_vif_imported)) \<and>
   fst (initialize True [(''ovs'', \<lambda>plugin_name. Inr OvsHybridPlugin)]
          (snd (initialize False example_found os_vif_imported))) = Inr () \<and>
   map_option names (EXT_MANAGER (snd (initialize True
          [(''ovs'', \<lambda>plugin_name. Inr OvsHybridPlugin)]
          (snd (initialize False example_found os_vif_imported))))) = Some [''ovs''] \<and>
   map_option (\<lambda>mgr. map_option ext_obj (by_name mgr ''ovs_hybrid''))
     (EXT_MANAGER (snd (initialize True
          [(''ovs'', \<lambda>plugin_name. Inr OvsHybridPlugin)]
          (snd (initialize False example_found os_vif_imported))))) = Some None \<and>
   loads (snd (initialize True [(''ovs'', \<lambda>plugin_name. Inr OvsHybridPlugin)]
          (snd (initialize False example_found os_vif_imported)))) = [''ovs_hybrid'', ''ovs'']"
proof -
  let ?s1 = "snd (initialize False example_found os_vif_imported) :: script os_vif"
  let ?found = "[(''ovs'', \<lambda>plugin_name. Inr OvsHybridPlugin)]
                  :: (string \<times> (string \<Rightarrow> exn + script plugin_obj)) list"
  have first: "initialize False example_found os_vif_imported = (Inr (), ?s1)"
    by (simp add: example_initialized)
  have rebuilt: "fst (initialize True ?found ?s1) = Inr ()"
    by (simp add: example_initialized initialize_def ExtensionManager_def)
  then have second: "initialize True ?found ?s1 = (Inr (), snd (initialize True ?found ?s1))"
    by (simp add: prod_eq_iff)
  from initialize_repeat [of False example_found os_vif_imported "[]"] first
  have again: "initialize False [] ?s1 = (Inr (), ?s1)"
    by blast
  from initialize_repeat [where found = ?found and s = ?s1] second
  obtain mgr where
    mgr: "EXT_MANAGER (snd (initialize True ?found ?s1)) = Some mgr"
      "names mgr = map fst ?found"
      "\<forall>n. n \<notin> fst ` set ?found \<longrightarrow> by_name mgr n = None" and
    l: "loads (snd (initialize True ?found ?s1)) = loads ?s1 @ map fst ?found"
    by blast
  from mgr(3) have gone: "by_name mgr ''ovs_hybrid'' = None"
    by simp
  have l1: "loads ?s1 = [''ovs_hybrid'']"
    by (simp add: example_initialized)
  show ?thesis
  proof (intro conjI)
    show "map_option names (EXT_MANAGER (snd (initialize True ?found ?s1))) = Some [''ovs'']"
      using mgr(1,2) by simp
    show "map_option (\<lambda>mgr. map_option ext_obj (by_name mgr ''ovs_hybrid''))
            (EXT_MANAGER (snd (initialize True ?found ?s1))) = Some None"
      using mgr(1) gone by simp
    show "loads (snd (initialize True ?found ?s1)) = [''ovs_hybrid'', ''ovs'']"
      using l l1 by simp
  qed (fact first again rebuilt)+
qed

end
